theory Spec2Isabelle
  imports Complex_Main "HOL-Library.Sublist"
begin

section \<open>Temporal adoption analyzer (temporal_analyzer.py)\<close>

text \<open>
  Python integers are modelled as \<open>int\<close>. Python floats are modelled as exact
  rationals (\<open>rat\<close>). In this section every float is a quotient of two repository
  counts or a decimal literal, and the comparisons between such a quotient and a literal
  agree with the exact ones for all counts below \<open>2^50\<close>; in the later sections
  sums and products of floats are taken exactly.
\<close>

datatype trend = GROWING | STABLE | DECLINING | ABANDONED | NONE

text \<open>\<open>TemporalAnalyzer._determine_trend\<close>\<close>

definition determine_trend :: "int \<Rightarrow> int \<Rightarrow> int \<Rightarrow> int \<Rightarrow> int \<Rightarrow> trend" where
  "determine_trend recent new legacy active total_n =
     (if total_n = 0 then NONE
      else
        let recent_ratio = (of_int recent / of_int total_n :: rat);
            new_ratio = (of_int new / of_int total_n :: rat);
            legacy_ratio = (of_int legacy / of_int total_n :: rat);
            activity_ratio = (of_int active / of_int total_n :: rat)
        in if recent_ratio > 0.5 \<or> (new_ratio > 0.6 \<and> activity_ratio > 0.7) then GROWING
           else if legacy_ratio > 0.7 \<and> activity_ratio < 0.3 then ABANDONED
           else if recent_ratio = 0 \<and> new_ratio < 0.3 \<and> activity_ratio < 0.5 then DECLINING
           else STABLE)"

text \<open>\<open>TemporalAnalyzer._calculate_recency_score\<close>\<close>

definition calculate_recency_score :: "int \<Rightarrow> int \<Rightarrow> int \<Rightarrow> rat" where
  "calculate_recency_score recent new total_n =
     (if total_n = 0 then 0
      else (of_int recent * 1.0 + of_int new * 0.5) / of_int total_n)"

section \<open>Temporal metadata of a repository (scanner.py)\<close>

text \<open>
  A repository as the scanner reads it from the data source. Timestamps are seconds since
  the epoch; \<open>pushed_at\<close> may be absent.
\<close>

record repository =
  repo_name :: string
  full_name :: string
  html_url :: string
  stargazers_count :: int
  archived :: bool
  fork :: bool
  private_repo :: bool
  created_at :: rat
  pushed_at :: "rat option"

text \<open>
  \<open>GitHubScanner._get_temporal_metadata\<close>. The clock value \<open>now\<close> that the
  method reads is a parameter; \<open>(now - created_at).days\<close> is the floor of the
  difference in days. Only the computed fields are kept (the two ISO strings are renderings
  of the inputs); \<open>age_months\<close> is the unrounded value the flags are computed from.
\<close>

record temporal_metadata =
  age_months :: rat
  days_since_push :: int
  is_active :: bool
  is_recent :: bool
  is_new :: bool
  is_legacy :: bool

definition get_temporal_metadata :: "rat \<Rightarrow> repository \<Rightarrow> temporal_metadata" where
  "get_temporal_metadata now repo =
     (let created = created_at repo;
          pushed = (case pushed_at repo of Some p \<Rightarrow> p | None \<Rightarrow> created);
          age_days = \<lfloor>(now - created) / 86400\<rfloor>;
          months = (of_int age_days / 30.0 :: rat);
          since_push = \<lfloor>(now - pushed) / 86400\<rfloor>
      in \<lparr> age_months = months,
           days_since_push = since_push,
           is_active = (since_push < 90),
           is_recent = (months \<le> 6),
           is_new = (months \<le> 12),
           is_legacy = (months > 24) \<rparr>)"

section \<open>Decision engine (classifier_enhanced.py)\<close>

text \<open>
  The temporal profile returned by \<open>TemporalAnalyzer.analyze_technology\<close>. The key
  \<open>by_domain\<close> is optional in the dictionary (\<open>None\<close> when absent); its value is a
  dictionary in insertion order, modelled as an association list.
\<close>

record domain_metrics =
  dm_total_repos :: int
  dm_recent_repos :: int
  dm_new_repos :: int
  dm_active_repos :: int
  dm_recency_score :: rat
  dm_activity_score :: rat
  dm_trend :: trend

record temporal_data =
  total_repos :: int
  recent_repos :: int
  new_repos :: int
  legacy_repos :: int
  active_repos :: int
  stale_repos :: int
  avg_age_months :: rat
  trend :: trend
  recency_score :: rat
  activity_score :: rat
  repos_list :: "string list"
  by_domain :: "(string \<times> domain_metrics) list option"

text \<open>\<open>EnhancedTechnologyClassifier.RINGS\<close>\<close>

definition RINGS :: "int \<Rightarrow> string option" where
  "RINGS ring =
     (if ring = 0 then Some ''Adopt''
      else if ring = 1 then Some ''Trial''
      else if ring = 2 then Some ''Assess''
      else if ring = 3 then Some ''Hold''
      else None)"

text \<open>
  The loop over \<open>temporal_data['by_domain'].items()\<close> at the head of
  \<open>_smart_ring_decision\<close>: \<open>Some\<close> is a \<open>return\<close> from inside the loop,
  \<open>None\<close> is the loop running to its end.
\<close>

fun domain_dominance :: "(string \<times> domain_metrics) list \<Rightarrow> (int \<times> rat) option" where
  "domain_dominance [] = None"
| "domain_dominance ((domain, metrics) # rest) =
     (let domain_repos = dm_total_repos metrics;
          domain_activity = dm_activity_score metrics
      in if domain_repos \<ge> 20 then
           if (domain_repos \<ge> 50 \<and> domain_activity \<ge> 0.5) \<or>
              (domain_repos \<ge> 70 \<and> domain_activity \<ge> 0.4) then Some (0, 0.9)
           else if domain_repos \<ge> 30 \<and> domain_activity \<ge> 0.65 then Some (1, 0.8)
           else domain_dominance rest
         else domain_dominance rest)"

text \<open>\<open>EnhancedTechnologyClassifier._smart_ring_decision\<close>\<close>

definition smart_ring_decision ::
    "rat \<Rightarrow> rat \<Rightarrow> rat \<Rightarrow> trend \<Rightarrow> temporal_data \<Rightarrow> int \<times> rat" where
  "smart_ring_decision usage recency activity trnd td =
     (case (case by_domain td of
              Some bd \<Rightarrow> if bd \<noteq> [] then domain_dominance bd else None
            | None \<Rightarrow> None) of
        Some decision \<Rightarrow> decision
      | None \<Rightarrow>
          if (usage \<ge> 0.4 \<and> activity \<ge> 0.5) \<or> (usage \<ge> 0.35 \<and> activity \<ge> 0.6)
          then (0, 0.9)
          else if (recency \<ge> 0.2 \<and> activity \<ge> 0.6 \<and> trnd = GROWING) \<or>
                  (usage \<ge> 0.25 \<and> activity \<ge> 0.75)
          then (1, 0.8)
          else if (usage < 0.1 \<and> activity < 0.3) \<or> trnd = ABANDONED
          then (3, 0.85)
          else (2, 0.6))"

text \<open>\<open>EnhancedTechnologyClassifier._calculate_confidence\<close>\<close>

definition calculate_confidence ::
    "rat \<Rightarrow> rat \<Rightarrow> rat \<Rightarrow> temporal_data \<Rightarrow> rat \<Rightarrow> rat \<Rightarrow> rat" where
  "calculate_confidence usage_score recency activity td ring_confidence ai_confidence =
     (let strong0 = (0::int); total0 = (0::int);
          total1 = total0 + 1;
          strong1 = (if usage_score > 0.7 \<or> usage_score < 0.1 then strong0 + 1 else strong0);
          total2 = total1 + 1;
          strong2 = (if activity > 0.8 \<or> activity < 0.2 then strong1 + 1 else strong1);
          total3 = total2 + 1;
          strong3 = (if trend td \<in> set [GROWING, ABANDONED] then strong2 + 1 else strong2);
          total4 = total3 + 1;
          strong4 = (if total_repos td \<ge> 5 then strong3 + 1 else strong3);
          signal_confidence = (of_int strong4 / of_int total4 :: rat);
          confidence = signal_confidence * 0.4 + ring_confidence * 0.4 + ai_confidence * 0.2
      in min confidence 1.0)"

text \<open>\<open>EnhancedTechnologyClassifier._determine_review_need\<close>\<close>

definition determine_review_need ::
    "rat \<Rightarrow> temporal_data \<Rightarrow> rat \<Rightarrow> int \<Rightarrow> bool \<times> string option" where
  "determine_review_need confidence td usage_score ring =
     (if confidence < 0.75 then (True, Some ''Low confidence classification'')
      else if trend td = DECLINING \<and> usage_score > 0.3
        then (True, Some ''High usage but declining trend'')
      else if trend td = GROWING \<and> usage_score < 0.1
        then (True, Some ''Low usage but growing trend'')
      else if total_repos td < 3 then (True, Some ''Limited data (fewer than 3 repos)'')
      else (False, None))"

section \<open>The specification's trend conditions\<close>

text \<open>
  The three conditions of the specification's precedence list, written over the four
  ratios \<open>recentRatio\<close>, \<open>newRatio\<close>, \<open>legacyRatio\<close>, \<open>activityRatio\<close>.
\<close>

definition spec_growing :: "rat \<Rightarrow> rat \<Rightarrow> rat \<Rightarrow> rat \<Rightarrow> bool" where
  "spec_growing recentRatio newRatio legacyRatio activityRatio \<longleftrightarrow>
     recentRatio > 5 / 10 \<or> (newRatio > 6 / 10 \<and> activityRatio > 7 / 10)"

definition spec_abandoned :: "rat \<Rightarrow> rat \<Rightarrow> rat \<Rightarrow> rat \<Rightarrow> bool" where
  "spec_abandoned recentRatio newRatio legacyRatio activityRatio \<longleftrightarrow>
     legacyRatio > 7 / 10 \<and> activityRatio < 3 / 10"

definition spec_declining :: "rat \<Rightarrow> rat \<Rightarrow> rat \<Rightarrow> rat \<Rightarrow> bool" where
  "spec_declining recentRatio newRatio legacyRatio activityRatio \<longleftrightarrow>
     recentRatio = 0 \<and> newRatio < 3 / 10 \<and> activityRatio < 5 / 10"

section \<open>The specification's decision conditions\<close>

text \<open>
  The conditions of the specification's Decision Engine section, written from its words, to
  be compared with the functions above.
\<close>

definition spec_adopt_dominant :: "domain_metrics \<Rightarrow> bool" where
  "spec_adopt_dominant entry \<longleftrightarrow>
     (dm_total_repos entry \<ge> 70 \<and> dm_activity_score entry \<ge> 4 / 10) \<or>
     (dm_total_repos entry \<ge> 50 \<and> dm_activity_score entry \<ge> 5 / 10)"

definition spec_trial_dominant :: "domain_metrics \<Rightarrow> bool" where
  "spec_trial_dominant entry \<longleftrightarrow>
     dm_total_repos entry \<ge> 30 \<and> dm_activity_score entry \<ge> 65 / 100"

definition spec_review_condition :: "rat \<Rightarrow> trend \<Rightarrow> rat \<Rightarrow> int \<Rightarrow> bool" where
  "spec_review_condition confidence trnd usageRatio totalRepositories \<longleftrightarrow>
     confidence < 75 / 100 \<or> (trnd = DECLINING \<and> usageRatio > 3 / 10) \<or>
     (trnd = GROWING \<and> usageRatio < 1 / 10) \<or> totalRepositories < 3"

definition spec_signal_clarity :: "rat \<Rightarrow> rat \<Rightarrow> trend \<Rightarrow> int \<Rightarrow> rat" where
  "spec_signal_clarity usage activity trnd totalRepositories =
     of_nat (length (filter (\<lambda>holds. holds)
       [usage > 7 / 10 \<or> usage < 1 / 10,
        activity > 8 / 10 \<or> activity < 2 / 10,
        trnd = GROWING \<or> trnd = ABANDONED,
        totalRepositories \<ge> 5])) / 4"

definition spec_blend :: "rat \<Rightarrow> rat \<Rightarrow> rat \<Rightarrow> rat" where
  "spec_blend signalClarity ringBaseConfidence oracleConfidence =
     4 / 10 * signalClarity + 4 / 10 * ringBaseConfidence + 2 / 10 * oracleConfidence"

definition clamp01 :: "rat \<Rightarrow> rat" where
  "clamp01 x = max 0 (min 1 x)"

subsection \<open>Example profiles\<close>

text \<open>A repository created at time 0 and never pushed to.\<close>

definition young_repository :: repository where
  "young_repository =
     \<lparr> repo_name = ''radar'', full_name = ''org/radar'', html_url = ''https://example.org/radar'',
       stargazers_count = 0, archived = False, fork = False, private_repo = False,
       created_at = 0, pushed_at = None \<rparr>"

text \<open>
  A technology found in 10 repositories, none recent, 2 new, 3 legacy, 9 active, none of
  them carrying a domain tag: the analyzer yields trend \<open>STABLE\<close>, recency score 0.1,
  activity score 0.9 and no \<open>by_domain\<close> key.
\<close>

definition stable_profile :: temporal_data where
  "stable_profile =
     \<lparr> total_repos = 10, recent_repos = 0, new_repos = 2, legacy_repos = 3,
       active_repos = 9, stale_repos = 1, avg_age_months = 20,
       trend = determine_trend 0 2 3 9 10,
       recency_score = calculate_recency_score 0 2 10,
       activity_score = 9 / 10, repos_list = [], by_domain = None \<rparr>"

text \<open>
  A technology found in 100 repositories: 30 tagged \<open>backend\<close> (21 active), first met by
  the scan, and 70 tagged \<open>infrastructure\<close> (35 active).
\<close>

definition backend_metrics :: domain_metrics where
  "backend_metrics =
     \<lparr> dm_total_repos = 30, dm_recent_repos = 0, dm_new_repos = 0, dm_active_repos = 21,
       dm_recency_score = calculate_recency_score 0 0 30, dm_activity_score = 21 / 30,
       dm_trend = determine_trend 0 0 0 21 30 \<rparr>"

definition infrastructure_metrics :: domain_metrics where
  "infrastructure_metrics =
     \<lparr> dm_total_repos = 70, dm_recent_repos = 0, dm_new_repos = 0, dm_active_repos = 35,
       dm_recency_score = calculate_recency_score 0 0 70, dm_activity_score = 35 / 70,
       dm_trend = determine_trend 0 0 0 35 70 \<rparr>"

definition two_domain_profile :: "(string \<times> domain_metrics) list \<Rightarrow> temporal_data" where
  "two_domain_profile breakdown =
     \<lparr> total_repos = 100, recent_repos = 0, new_repos = 0, legacy_repos = 0,
       active_repos = 56, stale_repos = 44, avg_age_months = 18,
       trend = determine_trend 0 0 0 56 100,
       recency_score = calculate_recency_score 0 0 100,
       activity_score = 56 / 100, repos_list = [], by_domain = Some breakdown \<rparr>"

section \<open>Failure breaker (rate_limiter.py)\<close>

text \<open>
  Exceptions are values. \<open>Raised e\<close> is any instance of \<open>Exception\<close> raised by
  a collaborator; \<open>CircuitBreakerOpen\<close> is the \<open>Exception\<close> that
  \<open>CircuitBreaker.call\<close> raises itself; \<open>KeyboardInterrupt\<close> stands for the
  exceptions that are not instances of \<open>Exception\<close> and pass through every
  \<open>except Exception\<close> clause.
\<close>

datatype 'e py_exception =
    CircuitBreakerOpen
  | TypeError
  | ZeroDivisionError
  | KeyError
  | Raised 'e
  | KeyboardInterrupt

definition is_Exception :: "'e py_exception \<Rightarrow> bool" where
  "is_Exception x \<longleftrightarrow> x \<noteq> KeyboardInterrupt"

datatype circuit_state = CLOSED | OPEN | HALF_OPEN

record circuit_breaker =
  failure_threshold :: int
  timeout :: rat
  failure_count :: int
  last_failure_time :: "rat option"
  state :: circuit_state

text \<open>\<open>CircuitBreaker.__init__\<close>\<close>

definition CircuitBreaker :: "int \<Rightarrow> rat \<Rightarrow> circuit_breaker" where
  "CircuitBreaker threshold cooldown =
     \<lparr> failure_threshold = threshold, timeout = cooldown, failure_count = 0,
       last_failure_time = None, state = CLOSED \<rparr>"

text \<open>
  \<open>CircuitBreaker.call\<close>. The guarded operation \<open>func\<close> acts on a world
  \<open>'w\<close> (everything outside the breaker that it reads or changes) and either returns
  or raises; \<open>time_time\<close> reads the clock of a world. The method is the \<open>if\<close>
  block (\<open>admit\<close>) followed by the \<open>try\<close> block (\<open>attempt\<close>).
  Subtracting \<open>last_failure_time = None\<close> raises \<open>TypeError\<close>.
\<close>

definition admit ::
    "('w \<Rightarrow> rat) \<Rightarrow> circuit_breaker \<Rightarrow> 'w \<Rightarrow> 'e py_exception + circuit_breaker" where
  "admit time_time cb w =
     (if state cb = OPEN then
        (case last_failure_time cb of
           None \<Rightarrow> Inl TypeError
         | Some t \<Rightarrow>
             if time_time w - t \<ge> timeout cb then Inr (cb\<lparr>state := HALF_OPEN\<rparr>)
             else Inl CircuitBreakerOpen)
      else Inr cb)"

definition attempt ::
    "('w \<Rightarrow> rat) \<Rightarrow> circuit_breaker \<Rightarrow> ('w \<Rightarrow> ('e py_exception + 'a) \<times> 'w) \<Rightarrow> 'w \<Rightarrow>
     ('e py_exception + 'a) \<times> circuit_breaker \<times> 'w" where
  "attempt time_time cb func w =
     (case func w of
        (Inr result, w') \<Rightarrow>
          (Inr result,
           (if state cb = HALF_OPEN then cb\<lparr>state := CLOSED\<rparr> else cb)\<lparr>failure_count := 0\<rparr>,
           w')
      | (Inl e, w') \<Rightarrow>
          if is_Exception e then
            (let cb1 = cb\<lparr>failure_count := failure_count cb + 1,
                          last_failure_time := Some (time_time w')\<rparr>;
                 cb2 = (if failure_count cb1 \<ge> failure_threshold cb1
                        then cb1\<lparr>state := OPEN\<rparr> else cb1)
             in (Inl e, cb2, w'))
          else (Inl e, cb, w'))"

definition call ::
    "('w \<Rightarrow> rat) \<Rightarrow> circuit_breaker \<Rightarrow> ('w \<Rightarrow> ('e py_exception + 'a) \<times> 'w) \<Rightarrow> 'w \<Rightarrow>
     ('e py_exception + 'a) \<times> circuit_breaker \<times> 'w" where
  "call time_time cb func w =
     (case admit time_time cb w of
        Inl e \<Rightarrow> (Inl e, cb, w)
      | Inr cb1 \<Rightarrow> attempt time_time cb1 func w)"

text \<open>A caller invoking \<open>call\<close> once per operation of a list, in order.\<close>

fun call_each ::
    "('w \<Rightarrow> rat) \<Rightarrow> circuit_breaker \<Rightarrow> ('w \<Rightarrow> ('e py_exception + 'a) \<times> 'w) list \<Rightarrow> 'w \<Rightarrow>
     ('e py_exception + 'a) list \<times> circuit_breaker \<times> 'w" where
  "call_each time_time cb [] w = ([], cb, w)"
| "call_each time_time cb (func # funcs) w =
     (case call time_time cb func w of
        (r, cb1, w1) \<Rightarrow>
          (case call_each time_time cb1 funcs w1 of
             (rs, cb2, w2) \<Rightarrow> (r # rs, cb2, w2)))"

text \<open>
  The states the breaker is in between two calls that return or raise an \<open>Exception\<close>:
  an open or half-open breaker has reached its threshold and has a last failure time.
\<close>

definition breaker_inv :: "circuit_breaker \<Rightarrow> bool" where
  "breaker_inv cb \<longleftrightarrow>
     (state cb = CLOSED \<or>
      (failure_count cb \<ge> failure_threshold cb \<and> last_failure_time cb \<noteq> None))"

text \<open>
  Example operations on a world that is a pair of the clock and the number of times the
  operation ran.
\<close>

definition failing_op :: "rat \<times> nat \<Rightarrow> (string py_exception + unit) \<times> (rat \<times> nat)" where
  "failing_op w = (Inl (Raised ''timeout''), (fst w + 1, Suc (snd w)))"

definition succeeding_op :: "rat \<times> nat \<Rightarrow> (string py_exception + unit) \<times> (rat \<times> nat)" where
  "succeeding_op w = (Inr (), (fst w + 1, Suc (snd w)))"

definition opened_breaker :: circuit_breaker where
  "opened_breaker =
     \<lparr> failure_threshold = 5, timeout = 60, failure_count = 5,
       last_failure_time = Some 5, state = OPEN \<rparr>"

section \<open>Checkpoint store (progress.py)\<close>

text \<open>
  \<open>ProgressTracker\<close>: the list \<open>data['scanned_repos']\<close>, the \<open>enabled\<close> flag,
  and the scanned list held by the checkpoint file (\<open>None\<close>: no readable file). The
  timestamps and the statistics snapshot that the file also carries are left out.
\<close>

record progress_tracker =
  scanned_repos :: "string list"
  enabled :: bool
  checkpoint_file :: "string list option"

datatype write_result = Written | Unchanged | Destroyed

text \<open>\<open>ProgressTracker.is_scanned\<close>\<close>

definition is_scanned :: "progress_tracker \<Rightarrow> string \<Rightarrow> bool" where
  "is_scanned tracker repo_full_name \<longleftrightarrow> repo_full_name \<in> set (scanned_repos tracker)"

text \<open>
  \<open>ProgressTracker._save\<close>. Writing the file is an effect on the world; an exception
  while writing is caught and logged, and leaves the file as it was or unreadable.
\<close>

definition save ::
    "('w \<Rightarrow> write_result \<times> 'w) \<Rightarrow> progress_tracker \<Rightarrow> 'w \<Rightarrow> progress_tracker \<times> 'w" where
  "save write_checkpoint tracker w =
     (if \<not> enabled tracker then (tracker, w)
      else
        (case write_checkpoint w of
           (Written, w') \<Rightarrow> (tracker\<lparr>checkpoint_file := Some (scanned_repos tracker)\<rparr>, w')
         | (Unchanged, w') \<Rightarrow> (tracker, w')
         | (Destroyed, w') \<Rightarrow> (tracker\<lparr>checkpoint_file := None\<rparr>, w')))"

text \<open>
  \<open>ProgressTracker.mark_scanned\<close>. The remainder by a zero \<open>save_interval\<close> raises
  \<open>ZeroDivisionError\<close>, after the list has been extended.
\<close>

definition mark_scanned ::
    "('w \<Rightarrow> write_result \<times> 'w) \<Rightarrow> progress_tracker \<Rightarrow> string \<Rightarrow> int \<Rightarrow> 'w \<Rightarrow>
     'e py_exception option \<times> progress_tracker \<times> 'w" where
  "mark_scanned write_checkpoint tracker repo_full_name save_interval w =
     (let tracker1 =
            (if repo_full_name \<notin> set (scanned_repos tracker)
             then tracker\<lparr>scanned_repos := scanned_repos tracker @ [repo_full_name]\<rparr>
             else tracker)
      in if save_interval = 0 then (Some ZeroDivisionError, tracker1, w)
         else if int (length (scanned_repos tracker1)) mod save_interval = 0
         then (case save write_checkpoint tracker1 w of (tracker2, w') \<Rightarrow> (None, tracker2, w'))
         else (None, tracker1, w))"

text \<open>\<open>ProgressTracker.finalize\<close> (the end timestamp is left out).\<close>

definition finalize ::
    "('w \<Rightarrow> write_result \<times> 'w) \<Rightarrow> progress_tracker \<Rightarrow> 'w \<Rightarrow> progress_tracker \<times> 'w" where
  "finalize write_checkpoint tracker w = save write_checkpoint tracker w"

section \<open>Scan orchestrator (scanner.py)\<close>

type_synonym technologies = "(string \<times> string set) list"

record domain_info =
  domain_tag :: string
  domain_confidence :: rat

record repo_detail =
  rd_name :: string
  rd_full_name :: string
  rd_url :: string
  rd_stars :: int
  rd_technologies :: technologies
  rd_temporal_metadata :: temporal_metadata
  rd_domain :: "domain_info option"

record scan_stats =
  repos_scanned :: int
  repos_skipped :: int
  api_calls :: int
  errors :: int

record github_config =
  include_archived :: bool
  include_forks :: bool
  include_private :: bool
  min_stars :: int
  exclude_repos :: "string list"

record scanner =
  stats :: scan_stats
  circuit_breaker :: circuit_breaker
  progress_tracker :: "progress_tracker option"
  repo_limit :: "int option"
  checkpoint_save_interval :: int
  github :: github_config

text \<open>
  The collaborators of the scanner, as operations on the world: the clock, the rate
  limiter's \<open>check_and_wait\<close>, the detector, the optional deep scanner with its
  \<open>should_deep_scan\<close> test, the optional domain detector, the repository listing of an
  organization, the checkpoint file write, and the library function \<open>fnmatch\<close>.
\<close>

record ('w, 'e) scan_env =
  time_time :: "'w \<Rightarrow> rat"
  check_and_wait :: "'w \<Rightarrow> 'e py_exception option \<times> 'w"
  detect_technologies :: "repository \<Rightarrow> 'w \<Rightarrow> ('e py_exception + technologies) \<times> 'w"
  should_deep_scan :: "(string \<Rightarrow> bool) option"
  deep_scan_repository :: "repository \<Rightarrow> 'w \<Rightarrow> ('e py_exception + string set) \<times> 'w"
  detect_domain ::
    "(repository \<Rightarrow> technologies \<Rightarrow> 'w \<Rightarrow> ('e py_exception + domain_info option) \<times> 'w) option"
  get_repos :: "string \<Rightarrow> 'w \<Rightarrow> ('e py_exception + repository list) \<times> 'w"
  write_checkpoint :: "'w \<Rightarrow> write_result \<times> 'w"
  fnmatch :: "string \<Rightarrow> string \<Rightarrow> bool"

text \<open>\<open>GitHubScanner._should_skip_repo\<close>\<close>

definition should_skip_repo :: "(string \<Rightarrow> string \<Rightarrow> bool) \<Rightarrow> github_config \<Rightarrow> repository \<Rightarrow> bool" where
  "should_skip_repo matches config repo =
     (if archived repo \<and> \<not> include_archived config then True
      else if fork repo \<and> \<not> include_forks config then True
      else if private_repo repo \<and> \<not> include_private config then True
      else if stargazers_count repo < min_stars config then True
      else if list_ex (\<lambda>pattern. matches (repo_name repo) pattern) (exclude_repos config) then True
      else False)"

text \<open>
  The deep-scan block of \<open>_scan_repository\<close>: discoveries are added to the \<open>tools\<close>
  category; an \<open>Exception\<close> of the deep scanner is caught and logged.
\<close>

definition add_tools :: "technologies \<Rightarrow> string set \<Rightarrow> technologies" where
  "add_tools techs deep_techs =
     (case map_of techs ''tools'' of
        None \<Rightarrow> techs @ [(''tools'', deep_techs)]
      | Some tools \<Rightarrow> map (\<lambda>(category, names).
          if category = ''tools'' then (category, names \<union> deep_techs) else (category, names)) techs)"

definition deep_scan_block ::
    "('w, 'e) scan_env \<Rightarrow> repository \<Rightarrow> technologies \<Rightarrow> 'w \<Rightarrow>
     ('e py_exception + technologies) \<times> 'w" where
  "deep_scan_block env repo techs w =
     (case should_deep_scan env of
        None \<Rightarrow> (Inr techs, w)
      | Some should \<Rightarrow>
          if \<not> should (repo_name repo) then (Inr techs, w)
          else
            (case deep_scan_repository env repo w of
               (Inr deep_techs, w') \<Rightarrow>
                 (Inr (if deep_techs \<noteq> {} then add_tools techs deep_techs else techs), w')
             | (Inl e, w') \<Rightarrow> if is_Exception e then (Inr techs, w') else (Inl e, w')))"

text \<open>
  \<open>GitHubScanner._scan_repository\<close>, the guarded fetch-and-extract. It runs on the
  scanner's statistics and the world.
\<close>

definition scan_repository ::
    "('w, 'e) scan_env \<Rightarrow> repository \<Rightarrow> scan_stats \<times> 'w \<Rightarrow>
     ('e py_exception + technologies) \<times> (scan_stats \<times> 'w)" where
  "scan_repository env repo = (\<lambda>(st, w).
     (case check_and_wait env w of
        (Some e, w1) \<Rightarrow> (Inl e, (st, w1))
      | (None, w1) \<Rightarrow>
          (let st1 = st\<lparr>api_calls := api_calls st + 1\<rparr>
           in case detect_technologies env repo w1 of
                (Inl e, w2) \<Rightarrow> (Inl e, (st1, w2))
              | (Inr techs, w2) \<Rightarrow>
                  (case deep_scan_block env repo techs w2 of
                     (r, w3) \<Rightarrow> (r, (st1, w3))))))"

text \<open>
  The \<open>if techs:\<close> block of the loop body: the observation set is appended, the domain
  is detected when a domain detector is configured (its \<open>Exception\<close>s are caught), and
  the repository record is appended.
\<close>

definition record_details ::
    "('w, 'e) scan_env \<Rightarrow> repository \<Rightarrow> technologies \<Rightarrow>
     technologies list \<times> repo_detail list \<Rightarrow> 'w \<Rightarrow>
     'e py_exception option \<times> (technologies list \<times> repo_detail list) \<times> 'w" where
  "record_details env repo techs acc w =
     (let all_repo_techs = fst acc @ [techs];
          detected =
            (case detect_domain env of
               None \<Rightarrow> (Inr None, w)
             | Some detect \<Rightarrow>
                 (case detect repo techs w of
                    (Inr info, w') \<Rightarrow> (Inr info, w')
                  | (Inl e, w') \<Rightarrow> if is_Exception e then (Inr None, w') else (Inl e, w')))
      in case detected of
           (Inl e, w') \<Rightarrow> (Some e, (all_repo_techs, snd acc), w')
         | (Inr info, w') \<Rightarrow>
             (None,
              (all_repo_techs,
               snd acc @ [\<lparr> rd_name = repo_name repo, rd_full_name = full_name repo,
                            rd_url = html_url repo, rd_stars = stargazers_count repo,
                            rd_technologies = techs,
                            rd_temporal_metadata = get_temporal_metadata (time_time env w') repo,
                            rd_domain = info \<rparr>]),
              w'))"

text \<open>
  The \<open>except Exception\<close> clause of the loop body: an \<open>Exception\<close> is logged and
  counted; anything else leaves the loop.
\<close>

definition handle_scan_error ::
    "'e py_exception \<Rightarrow> technologies list \<times> repo_detail list \<Rightarrow> scanner \<Rightarrow> 'w \<Rightarrow>
     'e py_exception option \<times> (technologies list \<times> repo_detail list) \<times> scanner \<times> 'w" where
  "handle_scan_error e acc s w =
     (if is_Exception e
      then (None, acc, s\<lparr>stats := (stats s)\<lparr>errors := errors (stats s) + 1\<rparr>\<rparr>, w)
      else (Some e, acc, s, w))"

text \<open>
  The guarded call of the loop body:
  \<open>self.circuit_breaker.call(self._scan_repository, repo)\<close>.
\<close>

definition guarded_scan ::
    "('w, 'e) scan_env \<Rightarrow> repository \<Rightarrow> scanner \<Rightarrow> 'w \<Rightarrow>
     ('e py_exception + technologies) \<times> circuit_breaker \<times> (scan_stats \<times> 'w)" where
  "guarded_scan env repo s w =
     call (\<lambda>sw. time_time env (snd sw)) (circuit_breaker s) (scan_repository env repo) (stats s, w)"

text \<open>
  One iteration of the loop of \<open>GitHubScanner.scan_organization\<close>, called without a
  progress callback as \<open>scan_organizations\<close> is by \<open>main\<close>. The first component of
  the result is the exception that leaves the loop, if any.
\<close>

definition is_attempted :: "('w, 'e) scan_env \<Rightarrow> repository \<Rightarrow> scanner \<Rightarrow> bool" where
  "is_attempted env repo s \<longleftrightarrow>
     \<not> (case progress_tracker s of
          Some tracker \<Rightarrow> is_scanned tracker (full_name repo)
        | None \<Rightarrow> False) \<and>
     \<not> should_skip_repo (fnmatch env) (github s) repo"

definition scan_one ::
    "('w, 'e) scan_env \<Rightarrow> repository \<Rightarrow> technologies list \<times> repo_detail list \<Rightarrow> scanner \<Rightarrow> 'w \<Rightarrow>
     'e py_exception option \<times> (technologies list \<times> repo_detail list) \<times> scanner \<times> 'w" where
  "scan_one env repo acc s w =
     (if (case progress_tracker s of
            Some tracker \<Rightarrow> is_scanned tracker (full_name repo)
          | None \<Rightarrow> False)
      then (None, acc, s\<lparr>stats := (stats s)\<lparr>repos_skipped := repos_skipped (stats s) + 1\<rparr>\<rparr>, w)
      else if should_skip_repo (fnmatch env) (github s) repo
      then (None, acc, s\<lparr>stats := (stats s)\<lparr>repos_skipped := repos_skipped (stats s) + 1\<rparr>\<rparr>, w)
      else
        (case guarded_scan env repo s w of
           (r, cb', (st', w1)) \<Rightarrow>
             (let s1 = s\<lparr>circuit_breaker := cb', stats := st'\<rparr>
              in case r of
                   Inl e \<Rightarrow> handle_scan_error e acc s1 w1
                 | Inr techs \<Rightarrow>
                     (case (if techs \<noteq> [] then record_details env repo techs acc w1
                            else (None, acc, w1)) of
                        (Some e, acc', w2) \<Rightarrow> handle_scan_error e acc' s1 w2
                      | (None, acc', w2) \<Rightarrow>
                          (let s2 = s1\<lparr>stats := (stats s1)\<lparr>repos_scanned :=
                                         repos_scanned (stats s1) + 1\<rparr>\<rparr>
                           in case progress_tracker s2 of
                                None \<Rightarrow> (None, acc', s2, w2)
                              | Some tracker \<Rightarrow>
                                  (case mark_scanned (write_checkpoint env) tracker
                                          (full_name repo) (checkpoint_save_interval s2) w2 of
                                     (None, tracker', w3) \<Rightarrow>
                                       (None, acc', s2\<lparr>progress_tracker := Some tracker'\<rparr>, w3)
                                   | (Some e, tracker', w3) \<Rightarrow>
                                       handle_scan_error e acc'
                                         (s2\<lparr>progress_tracker := Some tracker'\<rparr>) w3))))))"

text \<open>The loop over the repositories.\<close>

fun scan_repos ::
    "('w, 'e) scan_env \<Rightarrow> repository list \<Rightarrow> technologies list \<times> repo_detail list \<Rightarrow> scanner \<Rightarrow> 'w \<Rightarrow>
     'e py_exception option \<times> (technologies list \<times> repo_detail list) \<times> scanner \<times> 'w" where
  "scan_repos env [] acc s w = (None, acc, s, w)"
| "scan_repos env (repo # rest) acc s w =
     (case scan_one env repo acc s w of
        (Some e, acc', s', w') \<Rightarrow> (Some e, acc', s', w')
      | (None, acc', s', w') \<Rightarrow> scan_repos env rest acc' s' w')"

text \<open>
  The slice \<open>repos[:self.repo_limit]\<close>, taken when the limit is set, non-zero and below
  the number of repositories; a negative limit drops from the end.
\<close>

definition apply_repo_limit :: "int option \<Rightarrow> 'a list \<Rightarrow> 'a list" where
  "apply_repo_limit limit repos =
     (case limit of
        None \<Rightarrow> repos
      | Some l \<Rightarrow>
          if l \<noteq> 0 \<and> l < int (length repos)
          then (if l \<ge> 0 then take (nat l) repos else take (length repos - nat (- l)) repos)
          else repos)"

text \<open>\<open>GitHubScanner.scan_organization\<close>\<close>

definition scan_organization ::
    "('w, 'e) scan_env \<Rightarrow> string \<Rightarrow> scanner \<Rightarrow> 'w \<Rightarrow>
     ('e py_exception + technologies list \<times> repo_detail list) \<times> scanner \<times> 'w" where
  "scan_organization env org_name s w =
     (case check_and_wait env w of
        (Some e, w1) \<Rightarrow> (Inl e, s, w1)
      | (None, w1) \<Rightarrow>
          (let s1 = s\<lparr>stats := (stats s)\<lparr>api_calls := api_calls (stats s) + 1\<rparr>\<rparr>
           in case get_repos env org_name w1 of
                (Inl e, w2) \<Rightarrow> (Inl e, s1, w2)
              | (Inr repos, w2) \<Rightarrow>
                  (case scan_repos env (apply_repo_limit (repo_limit s1) repos) ([], []) s1 w2 of
                     (Some e, acc, s2, w3) \<Rightarrow> (Inl e, s2, w3)
                   | (None, acc, s2, w3) \<Rightarrow> (Inr acc, s2, w3))))"

text \<open>
  The repositories of a run of the loop whose guarded scan returned without raising, in
  the order of the run: the loop is replayed and the full name of each attempted repository
  whose guarded call returns is collected.
\<close>

fun completed_scans ::
    "('w, 'e) scan_env \<Rightarrow> repository list \<Rightarrow> technologies list \<times> repo_detail list \<Rightarrow> scanner \<Rightarrow> 'w \<Rightarrow>
     string list" where
  "completed_scans env [] acc s w = []"
| "completed_scans env (repo # rest) acc s w =
     (if is_attempted env repo s \<and> \<not> isl (fst (guarded_scan env repo s w))
      then [full_name repo] else []) @
     (case scan_one env repo acc s w of
        (Some e, acc', s', w') \<Rightarrow> []
      | (None, acc', s', w') \<Rightarrow> completed_scans env rest acc' s' w')"

text \<open>The identifiers a checkpoint holds, in memory and in the file.\<close>

definition tracker_ids :: "progress_tracker \<Rightarrow> string set" where
  "tracker_ids tracker =
     set (scanned_repos tracker) \<union>
     (case checkpoint_file tracker of None \<Rightarrow> {} | Some ids \<Rightarrow> set ids)"

definition checkpoint_ids :: "scanner \<Rightarrow> string set" where
  "checkpoint_ids s =
     (case progress_tracker s of None \<Rightarrow> {} | Some tracker \<Rightarrow> tracker_ids tracker)"

subsection \<open>An example run\<close>

text \<open>
  Three repositories: the scan of \<open>org/a\<close> returns one language, the scan of
  \<open>org/b\<close> raises an \<open>Exception\<close>, and the scan of \<open>org/c\<close> is interrupted.
  The world is the clock alone; there is no deep scanner and no domain detector; every
  checkpoint write succeeds.
\<close>

definition example_repo :: "string \<Rightarrow> repository" where
  "example_repo n =
     \<lparr> repo_name = n, full_name = ''org/'' @ n, html_url = ''https://example.org/'' @ n,
       stargazers_count = 0, archived = False, fork = False, private_repo = False,
       created_at = 0, pushed_at = None \<rparr>"

definition example_env :: "(rat, string) scan_env" where
  "example_env =
     \<lparr> time_time = (\<lambda>w. w),
       check_and_wait = (\<lambda>w. (None, w)),
       detect_technologies = (\<lambda>repo w.
         if repo_name repo = ''a'' then (Inr [(''languages'', {''Python''})], w + 1)
         else if repo_name repo = ''b'' then (Inl (Raised ''server error''), w + 1)
         else (Inl KeyboardInterrupt, w + 1)),
       should_deep_scan = None,
       deep_scan_repository = (\<lambda>repo w. (Inr {}, w)),
       detect_domain = None,
       get_repos = (\<lambda>org w. (Inr [example_repo ''a'', example_repo ''b'', example_repo ''c''], w)),
       write_checkpoint = (\<lambda>w. (Written, w)),
       fnmatch = (\<lambda>n pattern. False) \<rparr>"

definition example_scanner :: scanner where
  "example_scanner =
     \<lparr> stats = \<lparr> repos_scanned = 0, repos_skipped = 0, api_calls = 0, errors = 0 \<rparr>,
       circuit_breaker = CircuitBreaker 5 60,
       progress_tracker = Some \<lparr> scanned_repos = [], enabled = True, checkpoint_file = None \<rparr>,
       repo_limit = None,
       checkpoint_save_interval = 1,
       github = \<lparr> include_archived = False, include_forks = False, include_private = True,
                  min_stars = 0, exclude_repos = [] \<rparr> \<rparr>"

section \<open>Curation engine (ai_filter.py)\<close>

subsection \<open>Strings\<close>

text \<open>
  A Python string is a list of characters. Two computations of the Python runtime are taken
  as parameters of the functions that use them, and every general statement holds for all
  values of them: \<open>str.lower\<close>, which folds every cased letter of Unicode, and the
  float expression \<open>round((k / n) * 100, 1)\<close> for two integers \<open>k\<close> and a nonzero
  \<open>n\<close>, whose value is a float and hence a rational number (the counts are taken to be
  in the range where the float division is defined).
\<close>

record python_runtime =
  str_lower :: "string \<Rightarrow> string"
  round_percentage :: "int \<Rightarrow> int \<Rightarrow> rat"

text \<open>The substring test \<open>needle in hay\<close> and \<open>str.startswith\<close>.\<close>

fun str_in :: "string \<Rightarrow> string \<Rightarrow> bool" where
  "str_in needle [] = (needle = [])"
| "str_in needle (c # cs) = (prefix needle (c # cs) \<or> str_in needle cs)"


text \<open>The decimal rendering of an integer in a formatted string.\<close>

function str_nat :: "nat \<Rightarrow> string" where
  "str_nat n =
     (if n < 10 then [char_of (48 + n)]
      else str_nat (n div 10) @ [char_of (48 + n mod 10)])"
  by pat_completeness auto
termination
  by (relation "measure (\<lambda>n. n)") auto

definition str_int :: "int \<Rightarrow> string" where
  "str_int i = (if i < 0 then CHR ''-'' # str_nat (nat (- i)) else str_nat (nat i))"

subsection \<open>Data\<close>

text \<open>
  A classified technology, with the fields the filter reads or writes: the name, quadrant
  and ring, the three metadata entries \<open>repos_count\<close>, \<open>usage_percentage\<close> and
  \<open>total_repos\<close>, and the annotations the filter adds. The other fields of the
  dictionary are carried along unchanged and are left out.
\<close>

record filtering_metadata =
  merged_from :: "string list option"
  ai_decision :: "string option"
  consolidated_from :: "string list option"

record deprecation =
  replacement :: "string option"
  deprecation_note :: "string option"

record technology =
  name :: string
  quadrant :: int
  ring :: int
  repos_count :: int
  usage_percentage :: rat
  md_total_repos :: int
  filtering_meta :: "filtering_metadata option"
  sub_features :: "string list option"
  deprecated :: "deprecation option"

record filter_config =
  filter_enabled :: bool
  ignore_single_repo :: bool
  ignore_os_utilities :: bool
  ignore_dev_conveniences :: bool
  strategic_include :: "string list"
  duplicate_detection :: bool
  consolidation :: bool
  deprecation_check :: bool
  always_include_min_repos :: int
  always_include_names :: "string set"

record filter_stats =
  evaluated :: int
  kept :: int
  removed :: int
  merged :: int
  consolidated :: int
  ai_calls :: int

text \<open>The defaults of \<open>AITechnologyFilter.__init__\<close>, for a configuration without a
  \<open>filtering\<close> section.\<close>

definition default_filter_config :: filter_config where
  "default_filter_config =
     \<lparr> filter_enabled = True, ignore_single_repo = True, ignore_os_utilities = True,
       ignore_dev_conveniences = True, strategic_include = [''high'', ''medium''],
       duplicate_detection = True, consolidation = True, deprecation_check = True,
       always_include_min_repos = 5, always_include_names = {} \<rparr>"

definition initial_filter_stats :: filter_stats where
  "initial_filter_stats =
     \<lparr> evaluated = 0, kept = 0, removed = 0, merged = 0, consolidated = 0, ai_calls = 0 \<rparr>"

subsection \<open>The Judgment Oracle\<close>

text \<open>
  One request to the Oracle either fails in the client (\<open>OpenAIError\<close>), or returns a
  text that \<open>json.loads\<close> rejects, or returns a JSON object, of which the keys the code
  reads are kept (\<open>None\<close>: key absent).
\<close>

datatype 'r oracle_answer = ApiError | Malformed | Answer 'r

datatype oracle_error = OpenAIError | JSONDecodeError

record strategic_reply =
  sr_strategic_value :: "string option"
  sr_reason :: "string option"
  sr_confidence :: "string option"

record duplicates_reply =
  are_duplicates :: "bool option"
  canonical_name :: "string option"
  merge_candidates :: "string list option"
  dr_reason :: "string option"

record hierarchy_reply =
  should_consolidate :: "bool option"
  hr_reason :: "string option"

record 'w judgment_oracle =
  ask_strategic :: "technology \<Rightarrow> 'w \<Rightarrow> strategic_reply oracle_answer \<times> 'w"
  ask_duplicates :: "string list \<Rightarrow> 'w \<Rightarrow> duplicates_reply oracle_answer \<times> 'w"
  ask_hierarchy :: "string \<Rightarrow> string list \<Rightarrow> 'w \<Rightarrow> hierarchy_reply oracle_answer \<times> 'w"

text \<open>
  The decorator \<open>backoff.on_exception(backoff.expo, OpenAIError, max_tries=2, max_time=30)\<close>:
  the decorated function is tried at most twice, the second time after a first
  \<open>OpenAIError\<close>. The wait between the tries is not modelled.
\<close>

definition with_backoff ::
    "('s \<Rightarrow> (oracle_error py_exception + 'a) \<times> 's) \<Rightarrow> 's \<Rightarrow> (oracle_error py_exception + 'a) \<times> 's" where
  "with_backoff target s =
     (case target s of
        (Inl e, s1) \<Rightarrow> if e = Raised OpenAIError then target s1 else (Inl e, s1)
      | (Inr r, s1) \<Rightarrow> (Inr r, s1))"

text \<open>The body shared by the three decorated methods: the request, the call counter, the
  parse.\<close>

definition oracle_request ::
    "('w \<Rightarrow> 'r oracle_answer \<times> 'w) \<Rightarrow> filter_stats \<times> 'w \<Rightarrow>
     (oracle_error py_exception + 'r) \<times> (filter_stats \<times> 'w)" where
  "oracle_request ask = (\<lambda>(st, w).
     (case ask w of
        (ApiError, w') \<Rightarrow> (Inl (Raised OpenAIError), (st, w'))
      | (Malformed, w') \<Rightarrow> (Inl (Raised JSONDecodeError), (st\<lparr>ai_calls := ai_calls st + 1\<rparr>, w'))
      | (Answer r, w') \<Rightarrow> (Inr r, (st\<lparr>ai_calls := ai_calls st + 1\<rparr>, w'))))"

subsection \<open>Phase 1: strategic value\<close>

record decision =
  should_include :: bool
  strategic_value :: "string option"
  reason :: "string option"
  confidence :: "string option"

text \<open>\<open>AITechnologyFilter._should_auto_ignore\<close>\<close>

definition os_utils :: "string list" where
  "os_utils = [''apt-get'', ''brew'', ''curl'', ''wget'', ''tar'', ''zip'', ''unzip'', ''grep'',
     ''sed'', ''awk'']"

definition dev_utils :: "string list" where
  "dev_utils = [''rimraf'', ''nodemon'', ''npm-run-all'', ''cross-env'', ''dotenv'', ''envsubst'']"

definition should_auto_ignore :: "python_runtime \<Rightarrow> filter_config \<Rightarrow> technology \<Rightarrow> bool" where
  "should_auto_ignore py config tech =
     (let name_l = str_lower py (name tech); count = repos_count tech
      in if ignore_single_repo config \<and> count = 1 then True
         else if ignore_os_utilities config \<and> list_ex (\<lambda>util. str_in util name_l) os_utils
         then True
         else if ignore_dev_conveniences config \<and> list_ex (\<lambda>util. str_in util name_l) dev_utils
         then True
         else False)"

text \<open>\<open>AITechnologyFilter._evaluate_strategic_value\<close>\<close>

definition evaluate_strategic_value ::
    "filter_config \<Rightarrow> 'w judgment_oracle \<Rightarrow> technology \<Rightarrow> filter_stats \<times> 'w \<Rightarrow>
     (oracle_error py_exception + decision) \<times> (filter_stats \<times> 'w)" where
  "evaluate_strategic_value config orc tech =
     with_backoff (\<lambda>s.
       (case oracle_request (ask_strategic orc tech) s of
          (Inl e, s1) \<Rightarrow> (Inl e, s1)
        | (Inr reply, s1) \<Rightarrow>
            (let value = (case sr_strategic_value reply of None \<Rightarrow> ''medium'' | Some v \<Rightarrow> v)
             in (Inr \<lparr> should_include = (value \<in> set (strategic_include config)),
                       strategic_value = sr_strategic_value reply,
                       reason = sr_reason reply,
                       confidence = sr_confidence reply \<rparr>, s1))))"

text \<open>
  The body of the loop of \<open>_evaluate_all_strategic_value\<close>; the dictionary
  \<open>decisions\<close> is an association list in insertion order.
\<close>

definition set_decision :: "string \<Rightarrow> decision \<Rightarrow> (string \<times> decision) list \<Rightarrow> (string \<times> decision) list" where
  "set_decision n d decisions =
     (if n \<in> fst ` set decisions
      then map (\<lambda>(k, v). if k = n then (k, d) else (k, v)) decisions
      else decisions @ [(n, d)])"

definition evaluate_one ::
    "python_runtime \<Rightarrow> filter_config \<Rightarrow> 'w judgment_oracle \<Rightarrow> technology \<Rightarrow>
     (string \<times> decision) list \<times> filter_stats \<times> 'w \<Rightarrow> (string \<times> decision) list \<times> filter_stats \<times> 'w" where
  "evaluate_one py config orc tech = (\<lambda>(decisions, st, w).
     (let st1 = st\<lparr>evaluated := evaluated st + 1\<rparr>
      in if name tech \<in> always_include_names config then
           (set_decision (name tech)
              \<lparr> should_include = True, strategic_value = Some ''high'',
                reason = Some ''Explicitly configured to always include'',
                confidence = Some ''high'' \<rparr> decisions,
            st1\<lparr>kept := kept st1 + 1\<rparr>, w)
         else if repos_count tech \<ge> always_include_min_repos config then
           (set_decision (name tech)
              \<lparr> should_include = True, strategic_value = Some ''medium'',
                reason = Some (''Used in '' @ str_int (repos_count tech) @ '' repos (above threshold)''),
                confidence = Some ''high'' \<rparr> decisions,
            st1\<lparr>kept := kept st1 + 1\<rparr>, w)
         else if should_auto_ignore py config tech then
           (set_decision (name tech)
              \<lparr> should_include = False, strategic_value = Some ''low'',
                reason = Some ''Auto-ignored (utility/single-repo)'',
                confidence = Some ''high'' \<rparr> decisions,
            st1\<lparr>removed := removed st1 + 1\<rparr>, w)
         else
           (case evaluate_strategic_value config orc tech (st1, w) of
              (Inr d, (st2, w2)) \<Rightarrow>
                (set_decision (name tech) d decisions,
                 (if should_include d then st2\<lparr>kept := kept st2 + 1\<rparr>
                  else st2\<lparr>removed := removed st2 + 1\<rparr>),
                 w2)
            | (Inl e, (st2, w2)) \<Rightarrow>
                (set_decision (name tech)
                   \<lparr> should_include = True, strategic_value = Some ''unknown'',
                     reason = Some ''AI evaluation failed, kept by default'',
                     confidence = Some ''low'' \<rparr> decisions,
                 st2\<lparr>kept := kept st2 + 1\<rparr>, w2))))"


subsection \<open>Phase 2: duplicate detection\<close>







subsection \<open>Phase 3: hierarchy detection\<close>







subsection \<open>Phase 4: deprecation\<close>




subsection \<open>The pipeline\<close>













subsection \<open>The specification's auto-removal condition\<close>

text \<open>
  The condition of the specification for auto-removal: the name matches the fixed
  utility / OS-tool / dev-convenience list and exactly one repository uses the technology.
\<close>

definition spec_matches_utility_list :: "python_runtime \<Rightarrow> string \<Rightarrow> bool" where
  "spec_matches_utility_list py n \<longleftrightarrow>
     list_ex (\<lambda>util. str_in util (str_lower py n)) (os_utils @ dev_utils)"

definition spec_auto_removed :: "python_runtime \<Rightarrow> technology \<Rightarrow> bool" where
  "spec_auto_removed py tech \<longleftrightarrow>
     spec_matches_utility_list py (name tech) \<and> repos_count tech = 1"

definition auto_ignore_decision :: decision where
  "auto_ignore_decision =
     \<lparr> should_include = False, strategic_value = Some ''low'',
       reason = Some ''Auto-ignored (utility/single-repo)'', confidence = Some ''high'' \<rparr>"

subsection \<open>Deterministic Oracles\<close>

text \<open>
  A deterministic Oracle answers every question by a function of the question alone; its
  world counts the requests made to it.
\<close>

definition deterministic_oracle ::
    "(technology \<Rightarrow> strategic_reply oracle_answer) \<Rightarrow>
     (string list \<Rightarrow> duplicates_reply oracle_answer) \<Rightarrow>
     (string \<Rightarrow> string list \<Rightarrow> hierarchy_reply oracle_answer) \<Rightarrow> nat judgment_oracle" where
  "deterministic_oracle strategic_answer duplicates_answer hierarchy_answer =
     \<lparr> ask_strategic = (\<lambda>tech w. (strategic_answer tech, Suc w)),
       ask_duplicates = (\<lambda>names w. (duplicates_answer names, Suc w)),
       ask_hierarchy = (\<lambda>p cs w. (hierarchy_answer p cs, Suc w)) \<rparr>"



subsection \<open>Example inputs\<close>

text \<open>
  The runtime on the examples. Their names are made of ASCII characters, on which
  \<open>str.lower\<close> folds the letters A to Z and nothing else; their merged counts are 16 and
  11 of 20 repositories, for which \<open>round((k / n) * 100, 1)\<close> is 80.0 and 55.0, the exact
  percentage.
\<close>

definition ascii_lower_char :: "char \<Rightarrow> char" where
  "ascii_lower_char c =
     (case map_of (zip ''ABCDEFGHIJKLMNOPQRSTUVWXYZ'' ''abcdefghijklmnopqrstuvwxyz'') c of
        Some l \<Rightarrow> l
      | None \<Rightarrow> c)"

definition example_runtime :: python_runtime where
  "example_runtime =
     \<lparr> str_lower = map ascii_lower_char,
       round_percentage = (\<lambda>k n. of_int k / of_int n * 100) \<rparr>"

text \<open>A classified technology used by \<open>count\<close> of 20 scanned repositories.\<close>

definition example_tech :: "string \<Rightarrow> int \<Rightarrow> technology" where
  "example_tech n count =
     \<lparr> name = n, quadrant = 1, ring = 2, repos_count = count,
       usage_percentage = of_int count * 5, md_total_repos = 20,
       filtering_meta = None, sub_features = None, deprecated = None \<rparr>"

text \<open>
  Two deterministic Oracles. For both, every technology has high strategic value and no
  hierarchy is consolidated. The merging Oracle takes every submitted group of names for
  one technology, whose canonical name is the shortest name of the group (the first among
  equals) with all other names as merge candidates; the declining Oracle takes no group for
  duplicates.
\<close>

definition shortest :: "string list \<Rightarrow> string" where
  "shortest names = foldl (\<lambda>best n. if length n < length best then n else best) (hd names) names"

definition high_value :: "technology \<Rightarrow> strategic_reply oracle_answer" where
  "high_value tech =
     Answer \<lparr> sr_strategic_value = Some ''high'', sr_reason = Some ''strategic'',
              sr_confidence = Some ''high'' \<rparr>"

definition keep_separate :: "string \<Rightarrow> string list \<Rightarrow> hierarchy_reply oracle_answer" where
  "keep_separate p cs = Answer \<lparr> should_consolidate = Some False, hr_reason = Some ''separate'' \<rparr>"

definition merge_everything :: "string list \<Rightarrow> duplicates_reply oracle_answer" where
  "merge_everything names =
     Answer \<lparr> are_duplicates = Some True, canonical_name = Some (shortest names),
              merge_candidates = Some (filter (\<lambda>n. n \<noteq> shortest names) names),
              dr_reason = Some ''same technology'' \<rparr>"


definition merging_oracle :: "nat judgment_oracle" where
  "merging_oracle = deterministic_oracle high_value merge_everything keep_separate"


subsection \<open>Notions for the statements about merging\<close>







subsection \<open>Example families\<close>









section \<open>Properties of the temporal analyzer\<close>

lemma determine_trend_cascade:
  assumes "total_n \<noteq> 0"
  shows "determine_trend recent new legacy active total_n =
     (let rr = of_int recent / of_int total_n; nr = of_int new / of_int total_n;
          lr = of_int legacy / of_int total_n; ar = of_int active / of_int total_n
      in if spec_growing rr nr lr ar then GROWING
         else if spec_abandoned rr nr lr ar then ABANDONED
         else if spec_declining rr nr lr ar then DECLINING
         else STABLE)"
  using assms
  unfolding determine_trend_def spec_growing_def spec_abandoned_def spec_declining_def Let_def
  by (simp only: if_False)

text \<open>
  Claim C1. The trend is a function of the five counts alone, decided in precedence order:
  \<open>NONE\<close> when the total is zero; for a positive total, \<open>GROWING\<close> exactly when
  recent/total exceeds 0.5 or (new/total exceeds 0.6 and active/total exceeds 0.7);
  \<open>ABANDONED\<close> exactly when that fails and legacy/total exceeds 0.7 with active/total
  below 0.3; \<open>DECLINING\<close> exactly when both fail and recent/total is zero, new/total is
  below 0.3 and active/total is below 0.5; \<open>STABLE\<close> exactly when none of the three
  conditions holds. The concrete vectors of the specification evaluate as stated.
\<close>

theorem determine_trend_precedence:
  fixes recent new legacy active total_n :: int
  shows "determine_trend recent new legacy active 0 = NONE \<and>
    (total_n > 0 \<longrightarrow>
      (let rr = of_int recent / of_int total_n; nr = of_int new / of_int total_n;
           lr = of_int legacy / of_int total_n; ar = of_int active / of_int total_n;
           t = determine_trend recent new legacy active total_n
       in (t = GROWING \<longleftrightarrow> spec_growing rr nr lr ar) \<and>
          (t = ABANDONED \<longleftrightarrow> \<not> spec_growing rr nr lr ar \<and> spec_abandoned rr nr lr ar) \<and>
          (t = DECLINING \<longleftrightarrow> \<not> spec_growing rr nr lr ar \<and> \<not> spec_abandoned rr nr lr ar \<and>
             spec_declining rr nr lr ar) \<and>
          (t = STABLE \<longleftrightarrow> \<not> spec_growing rr nr lr ar \<and> \<not> spec_abandoned rr nr lr ar \<and>
             \<not> spec_declining rr nr lr ar) \<and>
          t \<noteq> NONE)) \<and>
    determine_trend 6 6 0 6 10 = GROWING \<and>
    determine_trend 0 0 9 1 10 = ABANDONED \<and>
    determine_trend 0 2 3 3 10 = DECLINING \<and>
    determine_trend 1 3 3 5 10 = STABLE"
proof -
  have none: "determine_trend recent new legacy active 0 = NONE"
    by (simp add: determine_trend_def)
  have general: "(let rr = of_int recent / of_int total_n; nr = of_int new / of_int total_n;
           lr = of_int legacy / of_int total_n; ar = of_int active / of_int total_n;
           t = determine_trend recent new legacy active total_n
       in (t = GROWING \<longleftrightarrow> spec_growing rr nr lr ar) \<and>
          (t = ABANDONED \<longleftrightarrow> \<not> spec_growing rr nr lr ar \<and> spec_abandoned rr nr lr ar) \<and>
          (t = DECLINING \<longleftrightarrow> \<not> spec_growing rr nr lr ar \<and> \<not> spec_abandoned rr nr lr ar \<and>
             spec_declining rr nr lr ar) \<and>
          (t = STABLE \<longleftrightarrow> \<not> spec_growing rr nr lr ar \<and> \<not> spec_abandoned rr nr lr ar \<and>
             \<not> spec_declining rr nr lr ar) \<and>
          t \<noteq> NONE)" if "total_n > 0"
  proof -
    define rr nr lr ar where "rr = (of_int recent / of_int total_n :: rat)"
      and "nr = (of_int new / of_int total_n :: rat)"
      and "lr = (of_int legacy / of_int total_n :: rat)"
      and "ar = (of_int active / of_int total_n :: rat)"
    have t: "determine_trend recent new legacy active total_n =
        (if spec_growing rr nr lr ar then GROWING
         else if spec_abandoned rr nr lr ar then ABANDONED
         else if spec_declining rr nr lr ar then DECLINING
         else STABLE)"
      using determine_trend_cascade [of total_n recent new legacy active] that
      unfolding Let_def rr_def nr_def lr_def ar_def by simp
    show ?thesis
      unfolding Let_def rr_def [symmetric] nr_def [symmetric] lr_def [symmetric]
        ar_def [symmetric] t
      by (cases "spec_growing rr nr lr ar"; cases "spec_abandoned rr nr lr ar";
          cases "spec_declining rr nr lr ar"; simp)
  qed
  have vectors: "determine_trend 6 6 0 6 10 = GROWING" "determine_trend 0 0 9 1 10 = ABANDONED"
    "determine_trend 0 2 3 3 10 = DECLINING" "determine_trend 1 3 3 5 10 = STABLE"
    by (simp_all add: determine_trend_def)
  from none general vectors show ?thesis by blast
qed

theorem determine_trend_precedence_witness:
  "(10::int) > 0 \<and> determine_trend 0 0 9 1 10 = ABANDONED \<and>
   \<not> spec_growing 0 0 (9 / 10) (1 / 10) \<and> spec_abandoned 0 0 (9 / 10) (1 / 10)"
  using determine_trend_precedence [of 0 0 9 1 10]
  by (simp add: Let_def spec_growing_def spec_abandoned_def)

text \<open>
  Claim C10. The recency score is not bounded by 1: for counts with
  \<open>0 \<le> recent \<le> new \<le> total\<close> and \<open>total > 0\<close> it equals
  \<open>(recent + new / 2) / total\<close> and lies between 0 and 1.5, and it is exactly 1.5 when
  every matching repository is recent. The inclusion of the recent repositories in the new
  ones holds for every repository by the construction of its temporal metadata.
\<close>

theorem recency_score_range:
  fixes recent new total_n :: int
  shows "(0 \<le> recent \<and> recent \<le> new \<and> new \<le> total_n \<and> total_n > 0 \<longrightarrow>
      calculate_recency_score recent new total_n =
        (of_int recent + of_int new / 2) / of_int total_n \<and>
      0 \<le> calculate_recency_score recent new total_n \<and>
      calculate_recency_score recent new total_n \<le> 3 / 2) \<and>
    (total_n > 0 \<longrightarrow> calculate_recency_score total_n total_n total_n = 3 / 2 \<and>
      calculate_recency_score total_n total_n total_n > 1) \<and>
    (is_recent (get_temporal_metadata now repo) \<longrightarrow> is_new (get_temporal_metadata now repo))"
proof -
  have range: "0 \<le> calculate_recency_score recent new total_n \<and>
      calculate_recency_score recent new total_n \<le> 3 / 2"
    if h: "0 \<le> recent" "recent \<le> new" "new \<le> total_n" "total_n > 0"
  proof -
    let ?r = "of_int recent :: rat" and ?n = "of_int new :: rat" and ?t = "of_int total_n :: rat"
    have pos: "0 < ?t" using h by simp
    have le: "0 \<le> ?r" "?r \<le> ?n" "?n \<le> ?t" using h by simp_all
    have "?r + ?n / 2 \<le> 3 / 2 * ?t" using le by simp
    hence up: "(?r + ?n / 2) / ?t \<le> 3 / 2" using pos by (simp add: pos_divide_le_eq)
    have "0 \<le> ?r + ?n / 2" using le by simp
    hence lo: "0 \<le> (?r + ?n / 2) / ?t" using pos by simp
    show ?thesis using lo up h by (simp add: calculate_recency_score_def)
  qed
  have all: "calculate_recency_score total_n total_n total_n = 3 / 2" if "total_n > 0"
    using that by (simp add: calculate_recency_score_def field_simps)
  have eq: "calculate_recency_score recent new total_n =
      (of_int recent + of_int new / 2) / of_int total_n" if "total_n > 0"
    using that by (simp add: calculate_recency_score_def)
  have incl: "is_recent (get_temporal_metadata now repo) \<longrightarrow>
      is_new (get_temporal_metadata now repo)"
    by (simp add: get_temporal_metadata_def Let_def)
  have gt: "calculate_recency_score total_n total_n total_n > 1" if "total_n > 0"
    using all [OF that] by simp
  from range all gt eq incl show ?thesis by blast
qed

theorem recency_score_range_witness:
  "(0::int) \<le> 4 \<and> (4::int) \<le> 4 \<and> (4::int) > 0 \<and>
   calculate_recency_score 4 4 4 = 3 / 2 \<and> calculate_recency_score 4 4 4 > 1 \<and>
   is_recent (get_temporal_metadata 8640000 young_repository) \<and>
   is_new (get_temporal_metadata 8640000 young_repository)"
  using recency_score_range [of 4 4 4 8640000 young_repository]
  by (simp add: get_temporal_metadata_def young_repository_def Let_def)

section \<open>Properties of the decision engine\<close>

lemma no_breakdown_fallback:
  assumes "by_domain td = None \<or> by_domain td = Some []"
  shows "(case by_domain td of
            Some bd \<Rightarrow> if bd \<noteq> [] then domain_dominance bd else None
          | None \<Rightarrow> None) = None"
  using assms by (cases "by_domain td") auto

lemma ring_at_high_activity:
  assumes "by_domain td = None \<or> by_domain td = Some []"
  shows "fst (smart_ring_decision u r (9 / 10) t td) =
     (if u \<ge> 35 / 100 then 0
      else if (r \<ge> 2 / 10 \<and> t = GROWING) \<or> u \<ge> 25 / 100 then 1
      else if t = ABANDONED then 3 else 2)"
  unfolding smart_ring_decision_def no_breakdown_fallback [OF assms]
  by (cases "u \<ge> 35 / 100"; cases "u \<ge> 25 / 100"; cases "u \<ge> 4 / 10";
      cases "u < 1 / 10"; simp)

text \<open>
  Claim C2, as stated (usage ratio 0.05 yields Hold and 0.3 yields Assess at activity score
  0.9 without a breakdown), fails: on the stable example profile usage ratio 0.05 yields
  Assess and usage ratio 0.3 yields Trial.
\<close>

theorem ring_usage_points_counterexample:
  "by_domain stable_profile = None \<and>
   RINGS (fst (smart_ring_decision (5 / 100) (recency_score stable_profile) (9 / 10)
     (trend stable_profile) stable_profile)) = Some ''Assess'' \<and>
   RINGS (fst (smart_ring_decision (3 / 10) (recency_score stable_profile) (9 / 10)
     (trend stable_profile) stable_profile)) = Some ''Trial''"
  by (simp add: smart_ring_decision_def stable_profile_def RINGS_def determine_trend_def
      calculate_recency_score_def)

text \<open>
  Claim C2, amended. With the activity score fixed at 0.9 and no per-domain breakdown, the
  ring is monotonic in the usage ratio for every fixed recency score and trend (a larger
  usage ratio never gives a ring further from Adopt); usage ratio 0.4 yields Adopt, usage
  ratio 0.3 yields Trial, and usage ratio 0.05 yields Trial when the trend is GROWING with
  recency score at least 0.2, Hold when the trend is ABANDONED, and Assess otherwise.
\<close>

theorem ring_monotone_in_usage:
  assumes "by_domain td = None \<or> by_domain td = Some []"
  shows "(u1 \<le> u2 \<longrightarrow>
        fst (smart_ring_decision u2 r (9 / 10) t td) \<le>
        fst (smart_ring_decision u1 r (9 / 10) t td)) \<and>
     RINGS (fst (smart_ring_decision (4 / 10) r (9 / 10) t td)) = Some ''Adopt'' \<and>
     RINGS (fst (smart_ring_decision (3 / 10) r (9 / 10) t td)) = Some ''Trial'' \<and>
     RINGS (fst (smart_ring_decision (5 / 100) r (9 / 10) t td)) =
       (if r \<ge> 2 / 10 \<and> t = GROWING then Some ''Trial''
        else if t = ABANDONED then Some ''Hold''
        else Some ''Assess'')"
proof -
  have mono: "fst (smart_ring_decision u2 r (9 / 10) t td) \<le>
      fst (smart_ring_decision u1 r (9 / 10) t td)" if le: "u1 \<le> u2"
  proof -
    have a: "u1 \<ge> 35 / 100 \<Longrightarrow> u2 \<ge> 35 / 100" using le by linarith
    have b: "u1 \<ge> 25 / 100 \<Longrightarrow> u2 \<ge> 25 / 100" using le by linarith
    show ?thesis
      unfolding ring_at_high_activity [OF assms]
      using a b by (simp split: if_splits)
  qed
  have points:
    "RINGS (fst (smart_ring_decision (4 / 10) r (9 / 10) t td)) = Some ''Adopt''"
    "RINGS (fst (smart_ring_decision (3 / 10) r (9 / 10) t td)) = Some ''Trial''"
    "RINGS (fst (smart_ring_decision (5 / 100) r (9 / 10) t td)) =
       (if r \<ge> 2 / 10 \<and> t = GROWING then Some ''Trial''
        else if t = ABANDONED then Some ''Hold''
        else Some ''Assess'')"
    unfolding ring_at_high_activity [OF assms] by (simp_all add: RINGS_def)
  from mono points show ?thesis by blast
qed

theorem ring_monotone_in_usage_witness:
  "(by_domain stable_profile = None \<or> by_domain stable_profile = Some []) \<and>
   (5 / 100 :: rat) \<le> 3 / 10 \<and>
   fst (smart_ring_decision (3 / 10) (1 / 10) (9 / 10) STABLE stable_profile) \<le>
   fst (smart_ring_decision (5 / 100) (1 / 10) (9 / 10) STABLE stable_profile) \<and>
   RINGS (fst (smart_ring_decision (5 / 100) (1 / 10) (9 / 10) STABLE stable_profile)) =
     Some ''Assess''"
proof -
  have h: "by_domain stable_profile = None \<or> by_domain stable_profile = Some []"
    by (simp add: stable_profile_def)
  show ?thesis
    using h ring_monotone_in_usage [OF h, of "5 / 100" "3 / 10" "1 / 10" STABLE]
    by simp
qed

lemma domain_dominance_first_match:
  "domain_dominance bd =
     (case find (\<lambda>(domain, metrics). spec_adopt_dominant metrics \<or> spec_trial_dominant metrics) bd of
        None \<Rightarrow> None
      | Some (domain, metrics) \<Rightarrow>
          if spec_adopt_dominant metrics then Some (0, 9 / 10) else Some (1, 8 / 10))"
proof (induction bd)
  case Nil
  show ?case by simp
next
  case (Cons entry rest)
  obtain domain metrics where entry: "entry = (domain, metrics)" by (cases entry)
  show ?case
  proof (cases "spec_adopt_dominant metrics")
    case True
    then show ?thesis
      unfolding entry by (auto simp: spec_adopt_dominant_def Let_def)
  next
    case False
    note not_adopt = this
    show ?thesis
    proof (cases "spec_trial_dominant metrics")
      case True
      then show ?thesis
        using not_adopt unfolding entry
        by (auto simp: spec_adopt_dominant_def spec_trial_dominant_def Let_def)
    next
      case False
      then show ?thesis
        using not_adopt Cons.IH unfolding entry
        by (auto simp: spec_adopt_dominant_def spec_trial_dominant_def Let_def)
    qed
  qed
qed

text \<open>
  Claim C3 on the code. The loop over the breakdown returns at the first domain entry that
  meets either condition, so a Trial-level entry met before an Adopt-level entry decides
  the ring: with the \<open>backend\<close> entry (30 repositories, activity 0.7) ahead of the
  \<open>infrastructure\<close> entry (70 repositories, activity 0.5) the decision is Trial with
  base confidence 0.8, and with the two entries in the other order it is Adopt with 0.9.
\<close>

theorem domain_dominance_trial_before_adopt:
  "spec_adopt_dominant infrastructure_metrics \<and>
   \<not> spec_adopt_dominant backend_metrics \<and>
   spec_trial_dominant backend_metrics \<and>
   smart_ring_decision 1 0 (56 / 100) STABLE
     (two_domain_profile [(''backend'', backend_metrics),
                          (''infrastructure'', infrastructure_metrics)]) = (1, 8 / 10) \<and>
   smart_ring_decision 1 0 (56 / 100) STABLE
     (two_domain_profile [(''infrastructure'', infrastructure_metrics),
                          (''backend'', backend_metrics)]) = (0, 9 / 10)"
  by (simp add: smart_ring_decision_def two_domain_profile_def backend_metrics_def
      infrastructure_metrics_def spec_adopt_dominant_def spec_trial_dominant_def Let_def)

text \<open>
  Claim C4. The needs-review flag is set exactly when the overall confidence is below 0.75,
  or the trend is DECLINING with usage ratio above 0.3, or the trend is GROWING with usage
  ratio below 0.1, or the technology's total repository count is below 3; the reason is
  absent exactly when the flag is not set, and otherwise it is the reason of the first
  condition that holds, in that order.
\<close>

theorem review_need_iff:
  "fst (determine_review_need c td u ring_no) =
     spec_review_condition c (trend td) u (total_repos td) \<and>
   (snd (determine_review_need c td u ring_no) = None \<longleftrightarrow>
      \<not> spec_review_condition c (trend td) u (total_repos td)) \<and>
   (c < 75 / 100 \<longrightarrow>
      snd (determine_review_need c td u ring_no) = Some ''Low confidence classification'') \<and>
   (\<not> c < 75 / 100 \<and> trend td = DECLINING \<and> u > 3 / 10 \<longrightarrow>
      snd (determine_review_need c td u ring_no) = Some ''High usage but declining trend'') \<and>
   (\<not> c < 75 / 100 \<and> trend td = GROWING \<and> u < 1 / 10 \<longrightarrow>
      snd (determine_review_need c td u ring_no) = Some ''Low usage but growing trend'') \<and>
   (\<not> c < 75 / 100 \<and> \<not> (trend td = DECLINING \<and> u > 3 / 10) \<and>
    \<not> (trend td = GROWING \<and> u < 1 / 10) \<and> total_repos td < 3 \<longrightarrow>
      snd (determine_review_need c td u ring_no) = Some ''Limited data (fewer than 3 repos)'')"
  unfolding determine_review_need_def spec_review_condition_def
  by (cases "c < 75 / 100"; cases "trend td = DECLINING \<and> u > 3 / 10";
      cases "trend td = GROWING \<and> u < 1 / 10"; cases "total_repos td < 3"; simp)

theorem review_need_iff_witness:
  "(7 / 10 :: rat) < 75 / 100 \<and>
   determine_review_need (7 / 10) stable_profile (9 / 10) 0 =
     (True, Some ''Low confidence classification'') \<and>
   spec_review_condition (7 / 10) (trend stable_profile) (9 / 10) (total_repos stable_profile) \<and>
   \<not> spec_review_condition (8 / 10) STABLE (9 / 10) 10 \<and>
   determine_review_need (8 / 10) stable_profile (9 / 10) 0 = (False, None)"
  using review_need_iff [of "7 / 10" stable_profile "9 / 10" 0]
    review_need_iff [of "8 / 10" stable_profile "9 / 10" 0]
  by (simp add: stable_profile_def determine_trend_def spec_review_condition_def
      determine_review_need_def)

lemma signal_clarity_range:
  "0 \<le> spec_signal_clarity u a t n \<and> spec_signal_clarity u a t n \<le> 1"
  unfolding spec_signal_clarity_def by simp

lemma confidence_is_capped_blend:
  "calculate_confidence u r a td rc ai =
     min (spec_blend (spec_signal_clarity u a (trend td) (total_repos td)) rc ai) 1"
  unfolding calculate_confidence_def spec_blend_def spec_signal_clarity_def Let_def
  by (cases "u > 7 / 10 \<or> u < 1 / 10"; cases "a > 8 / 10 \<or> a < 2 / 10";
      cases "trend td = GROWING \<or> trend td = ABANDONED"; cases "total_repos td \<ge> 5"; simp)

text \<open>
  Claim C5. The overall confidence is the blend 0.4 * signal clarity + 0.4 * ring base
  confidence + 0.2 * oracle confidence, capped at 1, where the signal clarity is the
  fraction of the four signals that hold; for ring and oracle confidences in [0,1] (and any
  signal inputs) this is the blend clamped to [0,1], and the result lies in [0,1].
\<close>

theorem confidence_blend_clamped:
  "calculate_confidence u r a td rc ai =
     min (spec_blend (spec_signal_clarity u a (trend td) (total_repos td)) rc ai) 1 \<and>
   (0 \<le> rc \<and> rc \<le> 1 \<and> 0 \<le> ai \<and> ai \<le> 1 \<longrightarrow>
      calculate_confidence u r a td rc ai =
        clamp01 (spec_blend (spec_signal_clarity u a (trend td) (total_repos td)) rc ai) \<and>
      0 \<le> calculate_confidence u r a td rc ai \<and> calculate_confidence u r a td rc ai \<le> 1)"
proof -
  let ?s = "spec_signal_clarity u a (trend td) (total_repos td)"
  have s: "0 \<le> ?s" "?s \<le> 1" using signal_clarity_range by simp_all
  have nonneg: "0 \<le> spec_blend ?s rc ai" if "0 \<le> rc" "0 \<le> ai"
    using s that by (simp add: spec_blend_def)
  show ?thesis
    using nonneg by (auto simp: confidence_is_capped_blend clamp01_def min_def max_def)
qed

theorem confidence_blend_clamped_witness:
  "(0::rat) \<le> 9 / 10 \<and> (9 / 10 :: rat) \<le> 1 \<and>
   spec_signal_clarity (9 / 10) (9 / 10) STABLE 10 = 3 / 4 \<and>
   calculate_confidence (9 / 10) (1 / 10) (9 / 10) stable_profile (9 / 10) (9 / 10) = 84 / 100 \<and>
   clamp01 (spec_blend (3 / 4) (9 / 10) (9 / 10)) = 84 / 100"
  using confidence_blend_clamped [of "9 / 10" "1 / 10" "9 / 10" stable_profile "9 / 10" "9 / 10"]
  by (simp add: stable_profile_def determine_trend_def spec_signal_clarity_def spec_blend_def
      clamp01_def)

section \<open>Properties of the failure breaker\<close>

lemma call_closed_failure:
  assumes "state cb = CLOSED" "func w = (Inl e, w')" "is_Exception e"
  shows "call clock cb func w =
     (Inl e,
      cb\<lparr>failure_count := failure_count cb + 1, last_failure_time := Some (clock w'),
         state := (if failure_count cb + 1 \<ge> failure_threshold cb then OPEN else CLOSED)\<rparr>,
      w')"
  using assms by (simp add: call_def admit_def attempt_def Let_def)

lemma call_closed_result:
  assumes "state cb = CLOSED" "call clock cb func w = (Inl e, cb', w')" "is_Exception e"
  shows "func w = (Inl e, w')"
  using assms
  by (auto simp: call_def admit_def attempt_def Let_def split: sum.splits prod.splits if_splits)

lemma call_preserves_inv:
  "breaker_inv cb \<Longrightarrow> breaker_inv (fst (snd (call clock cb func w)))"
  by (cases "state cb")
     (auto simp: breaker_inv_def call_def admit_def attempt_def Let_def
      split: sum.splits prod.splits option.splits if_splits)

lemma call_each_preserves_inv:
  "breaker_inv cb \<Longrightarrow> breaker_inv (fst (snd (call_each clock cb funcs w)))"
proof (induction funcs arbitrary: cb w)
  case Nil
  then show ?case by simp
next
  case (Cons func funcs)
  obtain r cb1 w1 where c: "call clock cb func w = (r, cb1, w1)"
    by (cases "call clock cb func w") auto
  have "breaker_inv cb1"
    using call_preserves_inv [OF Cons.prems, of clock func w] c by simp
  from Cons.IH [OF this, of w1] show ?case
    by (cases "call_each clock cb1 funcs w1") (simp add: c)
qed

lemma consecutive_failures:
  assumes "state cb = CLOSED"
    and "call_each clock cb funcs w = (rs, cb', w')"
    and "\<forall>r \<in> set rs. \<exists>e. r = Inl e \<and> is_Exception e"
    and "failure_count cb + int (length funcs) \<le> failure_threshold cb"
  shows "failure_count cb' = failure_count cb + int (length funcs) \<and>
         failure_threshold cb' = failure_threshold cb \<and>
         state cb' = (if funcs \<noteq> [] \<and> failure_count cb' = failure_threshold cb
                      then OPEN else CLOSED)"
  using assms
proof (induction funcs arbitrary: cb w rs)
  case Nil
  then show ?case by simp
next
  case (Cons func funcs)
  obtain r cb1 w1 where c: "call clock cb func w = (r, cb1, w1)"
    by (cases "call clock cb func w") auto
  obtain rs1 where rest: "call_each clock cb1 funcs w1 = (rs1, cb', w')" and rs: "rs = r # rs1"
    using Cons.prems(2) by (auto simp: c split: prod.splits)
  from Cons.prems(3) rs obtain e where e: "r = Inl e" "is_Exception e" by auto
  have fw: "func w = (Inl e, w1)"
    using call_closed_result [of cb clock func w e cb1 w1] Cons.prems(1) c e by simp
  have cb1: "cb1 = cb\<lparr>failure_count := failure_count cb + 1,
      last_failure_time := Some (clock w1),
      state := (if failure_count cb + 1 \<ge> failure_threshold cb then OPEN else CLOSED)\<rparr>"
    using call_closed_failure [of cb func w e w1 clock] Cons.prems(1) fw e(2) c by simp
  show ?case
  proof (cases funcs)
    case Nil
    then show ?thesis using rest cb1 Cons.prems(4) by auto
  next
    case (Cons g gs)
    then have more: "funcs \<noteq> []" by simp
    have closed1: "state cb1 = CLOSED"
      using cb1 Cons.prems(4) more by (cases funcs) auto
    have all1: "\<forall>r \<in> set rs1. \<exists>e. r = Inl e \<and> is_Exception e"
      using Cons.prems(3) rs by simp
    have bound1: "failure_count cb1 + int (length funcs) \<le> failure_threshold cb1"
      using cb1 Cons.prems(4) by simp
    from Cons.IH [OF closed1 rest all1 bound1] more cb1
    show ?thesis by auto
  qed
qed

text \<open>
  Claim C6. Starting from a closed breaker with no recorded failure and threshold 5, five
  consecutive calls whose operation fails leave the breaker OPEN (and any shorter run of
  failures leaves it CLOSED). A call on an OPEN breaker before the cooldown has elapsed
  raises the breaker-open exception and leaves breaker and world as they were, whatever the
  operation. Once the cooldown has elapsed the call moves the breaker to HALF_OPEN and runs
  the operation once: its success closes the breaker and resets the failure counter, its
  failure re-opens the breaker with the last failure time set to the clock read after that
  failure. The condition on open breakers used for the last part holds for the fresh
  breaker and after any sequence of calls.
\<close>

theorem breaker_state_machine:
  fixes clock :: "'w \<Rightarrow> rat"
    and func :: "'w \<Rightarrow> ('e py_exception + 'a) \<times> 'w"
  shows
  "(state cb = CLOSED \<and> failure_count cb = 0 \<and> failure_threshold cb = 5 \<and>
    call_each clock cb funcs w = (rs, cb', w') \<and>
    (\<forall>r \<in> set rs. \<exists>e. r = Inl e \<and> is_Exception e) \<and> length funcs \<le> 5 \<longrightarrow>
      state cb' = (if length funcs = 5 then OPEN else CLOSED)) \<and>
   (state cb = OPEN \<and> last_failure_time cb = Some t \<and> clock w - t < timeout cb \<longrightarrow>
      call clock cb func w = (Inl CircuitBreakerOpen, cb, w)) \<and>
   (breaker_inv cb \<and> state cb = OPEN \<and> last_failure_time cb = Some t \<and>
    clock w - t \<ge> timeout cb \<longrightarrow>
      admit clock cb w = (Inr (cb\<lparr>state := HALF_OPEN\<rparr>) :: 'e py_exception + circuit_breaker) \<and>
      call clock cb func w =
        (case func w of
           (Inr result, w1) \<Rightarrow> (Inr result, cb\<lparr>state := CLOSED, failure_count := 0\<rparr>, w1)
         | (Inl e, w1) \<Rightarrow>
             if is_Exception e
             then (Inl e, cb\<lparr>state := OPEN, failure_count := failure_count cb + 1,
                               last_failure_time := Some (clock w1)\<rparr>, w1)
             else (Inl e, cb\<lparr>state := HALF_OPEN\<rparr>, w1))) \<and>
   breaker_inv (CircuitBreaker 5 60) \<and>
   breaker_inv (fst (snd (call_each clock (CircuitBreaker 5 60) funcs w)))"
proof -
  have a: "state cb' = (if length funcs = 5 then OPEN else CLOSED)"
    if h: "state cb = CLOSED" "failure_count cb = 0" "failure_threshold cb = 5"
      "call_each clock cb funcs w = (rs, cb', w')"
      "\<forall>r \<in> set rs. \<exists>e. r = Inl e \<and> is_Exception e" "length funcs \<le> 5"
  proof -
    have "failure_count cb + int (length funcs) \<le> failure_threshold cb"
      using h(2,3,6) by simp
    from consecutive_failures [OF h(1) h(4) h(5) this] h(2,3)
    show ?thesis by auto
  qed
  have b: "call clock cb func w = (Inl CircuitBreakerOpen, cb, w)"
    if "state cb = OPEN" "last_failure_time cb = Some t" "clock w - t < timeout cb"
    using that by (simp add: call_def admit_def)
  have c1: "admit clock cb w = (Inr (cb\<lparr>state := HALF_OPEN\<rparr>) :: 'e py_exception + circuit_breaker)"
    if "state cb = OPEN" "last_failure_time cb = Some t" "clock w - t \<ge> timeout cb"
    using that by (simp add: admit_def)
  have c2: "call clock cb func w =
        (case func w of
           (Inr result, w1) \<Rightarrow> (Inr result, cb\<lparr>state := CLOSED, failure_count := 0\<rparr>, w1)
         | (Inl e, w1) \<Rightarrow>
             if is_Exception e
             then (Inl e, cb\<lparr>state := OPEN, failure_count := failure_count cb + 1,
                               last_failure_time := Some (clock w1)\<rparr>, w1)
             else (Inl e, cb\<lparr>state := HALF_OPEN\<rparr>, w1))"
    if "breaker_inv cb" "state cb = OPEN" "last_failure_time cb = Some t"
      "clock w - t \<ge> timeout cb"
    using that
    by (auto simp: call_def admit_def attempt_def breaker_inv_def Let_def
        split: sum.splits prod.splits)
  have d: "breaker_inv (CircuitBreaker 5 60)"
    by (simp add: breaker_inv_def CircuitBreaker_def)
  have e: "breaker_inv (fst (snd (call_each clock (CircuitBreaker 5 60) funcs w)))"
    using call_each_preserves_inv [OF d] .
  from a b c1 c2 d e show ?thesis by blast
qed

theorem breaker_state_machine_witness:
  "call_each fst (CircuitBreaker 5 60) (replicate 5 failing_op) (0, 0) =
     (replicate 5 (Inl (Raised ''timeout'')), opened_breaker, (5, 5)) \<and>
   state opened_breaker = OPEN \<and> breaker_inv opened_breaker \<and>
   call fst opened_breaker succeeding_op (10, 5) = (Inl CircuitBreakerOpen, opened_breaker, (10, 5)) \<and>
   call fst opened_breaker succeeding_op (65, 5) =
     (Inr (), opened_breaker\<lparr>state := CLOSED, failure_count := 0\<rparr>, (66, 6)) \<and>
   call fst opened_breaker failing_op (65, 5) =
     (Inl (Raised ''timeout''),
      opened_breaker\<lparr>state := OPEN, failure_count := 6, last_failure_time := Some 66\<rparr>, (66, 6))"
proof -
  have run: "call_each fst (CircuitBreaker 5 60) (replicate 5 failing_op) (0, 0) =
     (replicate 5 (Inl (Raised ''timeout'')), opened_breaker, (5, 5))"
    by (simp add: call_def admit_def attempt_def CircuitBreaker_def failing_op_def
        opened_breaker_def is_Exception_def numeral_eq_Suc Let_def)
  have closed: "state (CircuitBreaker 5 60) = CLOSED \<and> failure_count (CircuitBreaker 5 60) = 0 \<and>
      failure_threshold (CircuitBreaker 5 60) = 5"
    by (simp add: CircuitBreaker_def)
  have fails: "\<forall>r \<in> set (replicate 5 (Inl (Raised ''timeout'') :: string py_exception + unit)).
      \<exists>e. r = Inl e \<and> is_Exception e"
    by (simp add: is_Exception_def)
  have opened: "state opened_breaker = OPEN \<and> breaker_inv opened_breaker \<and>
      last_failure_time opened_breaker = Some 5 \<and> timeout opened_breaker = 60"
    by (simp add: opened_breaker_def breaker_inv_def)
  note thm1 = breaker_state_machine [of "CircuitBreaker 5 60" fst "replicate 5 failing_op"
      "(0, 0)" "replicate 5 (Inl (Raised ''timeout''))" opened_breaker "(5, 5)" 5 succeeding_op]
  note thm2 = breaker_state_machine [of opened_breaker fst "[]" "(10, 5)" "[]" opened_breaker
      "(10, 5)" 5 succeeding_op]
  note thm3 = breaker_state_machine [of opened_breaker fst "[]" "(65, 5)" "[]" opened_breaker
      "(65, 5)" 5 succeeding_op]
  note thm4 = breaker_state_machine [of opened_breaker fst "[]" "(65, 5)" "[]" opened_breaker
      "(65, 5)" 5 failing_op]
  have s1: "state opened_breaker = OPEN" using thm1 run closed fails by simp
  have s2: "call fst opened_breaker succeeding_op (10, 5) =
      (Inl CircuitBreakerOpen, opened_breaker, (10, 5))"
    using thm2 opened by simp
  have s3: "call fst opened_breaker succeeding_op (65, 5) =
     (Inr (), opened_breaker\<lparr>state := CLOSED, failure_count := 0\<rparr>, (66, 6))"
    using thm3 opened by (simp add: succeeding_op_def)
  have s4: "call fst opened_breaker failing_op (65, 5) =
     (Inl (Raised ''timeout''),
      opened_breaker\<lparr>state := OPEN, failure_count := 6, last_failure_time := Some 66\<rparr>, (66, 6))"
    using thm4 opened by (simp add: failing_op_def is_Exception_def opened_breaker_def)
  from run s1 opened s2 s3 s4 show ?thesis by simp
qed

section \<open>Properties of the scan orchestrator\<close>

lemma save_ids: "tracker_ids (fst (save wr tracker w)) \<subseteq> tracker_ids tracker"
  by (auto simp: save_def tracker_ids_def split: prod.splits write_result.splits option.splits)

lemma mark_scanned_ids:
  fixes wr :: "'w \<Rightarrow> write_result \<times> 'w"
  defines "m \<equiv> \<lambda>tracker n interval w.
    (mark_scanned wr tracker n interval w :: 'e py_exception option \<times> progress_tracker \<times> 'w)"
  shows "tracker_ids (fst (snd (m tracker n interval w))) \<subseteq> insert n (tracker_ids tracker)"
proof -
  define t1 where "t1 = (if n \<notin> set (scanned_repos tracker)
             then tracker\<lparr>scanned_repos := scanned_repos tracker @ [n]\<rparr> else tracker)"
  have t1: "tracker_ids t1 \<subseteq> insert n (tracker_ids tracker)"
    by (auto simp: t1_def tracker_ids_def split: option.splits)
  have "fst (snd (m tracker n interval w)) = t1 \<or>
        fst (snd (m tracker n interval w)) = fst (save wr t1 w)"
    unfolding m_def mark_scanned_def t1_def [symmetric] Let_def
    by (cases "save wr t1 w") simp
  then have "tracker_ids (fst (snd (m tracker n interval w))) \<subseteq> tracker_ids t1"
    using save_ids [of wr t1 w] by auto
  with t1 show ?thesis by blast
qed

lemma handle_scan_error_tracker:
  "progress_tracker (fst (snd (snd (handle_scan_error e acc s w)))) = progress_tracker s"
  by (simp add: handle_scan_error_def)

lemma handle_scan_error_ids:
  "checkpoint_ids (fst (snd (snd (handle_scan_error e acc s w)))) = checkpoint_ids s"
  by (simp add: handle_scan_error_def checkpoint_ids_def)

lemma scan_one_not_attempted:
  assumes "\<not> is_attempted env repo s"
  shows "progress_tracker (fst (snd (snd (scan_one env repo acc s w)))) = progress_tracker s"
  using assms by (auto simp: scan_one_def is_attempted_def)

lemma scan_one_raises:
  assumes "is_attempted env repo s" "guarded_scan env repo s w = (Inl e, cb', st', w1)"
  shows "scan_one env repo acc s w =
     handle_scan_error e acc (s\<lparr>circuit_breaker := cb', stats := st'\<rparr>) w1"
  using assms by (simp add: scan_one_def is_attempted_def Let_def)

lemma scan_one_step_ids:
  fixes env :: "('w, 'e) scan_env"
  shows "checkpoint_ids (fst (snd (snd (scan_one env repo acc s w)))) \<subseteq>
     checkpoint_ids s \<union>
     (if is_attempted env repo s \<and> \<not> isl (fst (guarded_scan env repo s w))
      then {full_name repo} else {})"
proof (cases "is_attempted env repo s")
  case False
  then show ?thesis
    using scan_one_not_attempted [OF False, of acc w] by (simp add: checkpoint_ids_def)
next
  case True
  obtain r cb' st' w1 where g: "guarded_scan env repo s w = (r, cb', st', w1)"
    by (cases "guarded_scan env repo s w") auto
  let ?s1 = "s\<lparr>circuit_breaker := cb', stats := st'\<rparr>"
  have s1: "checkpoint_ids ?s1 = checkpoint_ids s" by (simp add: checkpoint_ids_def)
  show ?thesis
  proof (cases r)
    case (Inl e)
    then show ?thesis
      using scan_one_raises [OF True g [unfolded Inl], of acc] handle_scan_error_ids [of e acc ?s1 w1] s1
      by simp
  next
    case (Inr techs)
    obtain x acc' w2 where d: "(if techs \<noteq> [] then record_details env repo techs acc w1
        else (None, acc, w1)) = (x, acc', w2)"
      by (cases "if techs \<noteq> [] then record_details env repo techs acc w1 else (None, acc, w1)") auto
    show ?thesis
    proof (cases x)
      case (Some e)
      have "scan_one env repo acc s w = handle_scan_error e acc' ?s1 w2"
        using True g Inr d Some by (simp add: scan_one_def is_attempted_def Let_def)
      then show ?thesis
        using handle_scan_error_ids [of e acc' ?s1 w2] s1 by simp
    next
      case None
      let ?s2 = "?s1\<lparr>stats := (stats ?s1)\<lparr>repos_scanned := repos_scanned (stats ?s1) + 1\<rparr>\<rparr>"
      have s2: "checkpoint_ids ?s2 = checkpoint_ids s" by (simp add: checkpoint_ids_def)
      show ?thesis
      proof (cases "progress_tracker s")
        case no_tracker: None
        have "scan_one env repo acc s w = (None, acc', ?s2, w2)"
          using True g Inr d None no_tracker by (simp add: scan_one_def is_attempted_def Let_def)
        then show ?thesis using s2 by simp
      next
        case (Some tracker)
        obtain y tracker' w3 where m: "(mark_scanned (write_checkpoint env) tracker
            (full_name repo) (checkpoint_save_interval s) w2
              :: 'e py_exception option \<times> progress_tracker \<times> 'w) = (y, tracker', w3)"
          by (cases "mark_scanned (write_checkpoint env) tracker (full_name repo)
               (checkpoint_save_interval s) w2 :: 'e py_exception option \<times> progress_tracker \<times> 'w") auto
        have ids: "tracker_ids tracker' \<subseteq> insert (full_name repo) (tracker_ids tracker)"
          using mark_scanned_ids [where ?'w = 'w and ?'e = 'e, of "write_checkpoint env" tracker
              "full_name repo" "checkpoint_save_interval s" w2] m
          by simp
        let ?s3 = "?s2\<lparr>progress_tracker := Some tracker'\<rparr>"
        have s3: "checkpoint_ids ?s3 \<subseteq> insert (full_name repo) (checkpoint_ids s)"
          using ids Some by (simp add: checkpoint_ids_def)
        have res: "scan_one env repo acc s w =
            (case y of None \<Rightarrow> (None, acc', ?s3, w3) | Some e \<Rightarrow> handle_scan_error e acc' ?s3 w3)"
          using True g Inr d None Some m
          by (simp add: scan_one_def is_attempted_def Let_def split: option.splits)
        have "checkpoint_ids (fst (snd (snd (scan_one env repo acc s w)))) = checkpoint_ids ?s3"
          unfolding res using handle_scan_error_ids [of _ acc' ?s3 w3]
          by (cases y) simp_all
        then show ?thesis using s3 True g Inr by auto
      qed
    qed
  qed
qed

lemma scan_repos_ids:
  "checkpoint_ids (fst (snd (snd (scan_repos env repos acc s w)))) \<subseteq>
     checkpoint_ids s \<union> set (completed_scans env repos acc s w)"
proof (induction repos arbitrary: acc s w)
  case Nil
  show ?case by simp
next
  case (Cons repo rest)
  obtain x acc' s' w' where one: "scan_one env repo acc s w = (x, acc', s', w')"
    by (cases "scan_one env repo acc s w") auto
  have step: "checkpoint_ids s' \<subseteq> checkpoint_ids s \<union>
      (if is_attempted env repo s \<and> \<not> isl (fst (guarded_scan env repo s w))
       then {full_name repo} else {})"
    using scan_one_step_ids [of env repo acc s w] one by simp
  show ?case
  proof (cases x)
    case (Some e)
    then show ?thesis using one step by (auto split: if_splits)
  next
    case None
    have "checkpoint_ids (fst (snd (snd (scan_repos env rest acc' s' w')))) \<subseteq>
        checkpoint_ids s' \<union> set (completed_scans env rest acc' s' w')"
      by (rule Cons.IH)
    then show ?thesis using one None step by (auto split: if_splits)
  qed
qed

lemma scan_one_interrupted:
  assumes "is_attempted env repo s" "fst (guarded_scan env repo s w) = Inl e" "\<not> is_Exception e"
  shows "fst (scan_one env repo acc s w) = Some e \<and>
         progress_tracker (fst (snd (snd (scan_one env repo acc s w)))) = progress_tracker s"
proof -
  obtain cb' st' w1 where g: "guarded_scan env repo s w = (Inl e, cb', st', w1)"
    using assms(2) by (cases "guarded_scan env repo s w") auto
  show ?thesis
    unfolding scan_one_raises [OF assms(1) g]
    using assms(3) by (simp add: handle_scan_error_def)
qed

text \<open>
  Claim C7. In one iteration of the scan loop, a repository whose guarded scan raises
  (an \<open>Exception\<close> of the operation, the breaker-open exception, or an interrupt) leaves
  the checkpoint tracker exactly as it was, and so does a repository that is not attempted;
  an interrupt during the guarded scan ends the loop at once with the tracker unchanged.
  Over a whole run of the loop, the identifiers held by the checkpoint afterwards (in memory
  and in the file) are among those it held before and the repositories whose guarded scan
  returned without raising during the run; the final flush of the tracker adds none.
\<close>

theorem checkpoint_only_completed:
  fixes env :: "('w, 'e) scan_env"
  shows
  "(is_attempted env repo s \<and> isl (fst (guarded_scan env repo s w)) \<longrightarrow>
      progress_tracker (fst (snd (snd (scan_one env repo acc s w)))) = progress_tracker s) \<and>
   (\<not> is_attempted env repo s \<longrightarrow>
      progress_tracker (fst (snd (snd (scan_one env repo acc s w)))) = progress_tracker s) \<and>
   (is_attempted env repo s \<and> fst (guarded_scan env repo s w) = Inl e \<and> \<not> is_Exception e \<longrightarrow>
      fst (scan_repos env (repo # rest) acc s w) = Some e \<and>
      progress_tracker (fst (snd (snd (scan_repos env (repo # rest) acc s w)))) =
        progress_tracker s) \<and>
   checkpoint_ids (fst (snd (snd (scan_repos env repos acc s w)))) \<subseteq>
     checkpoint_ids s \<union> set (completed_scans env repos acc s w) \<and>
   tracker_ids (fst (finalize (write_checkpoint env) tracker w)) \<subseteq> tracker_ids tracker"
proof -
  have a: "progress_tracker (fst (snd (snd (scan_one env repo acc s w)))) = progress_tracker s"
    if att: "is_attempted env repo s" and raises: "isl (fst (guarded_scan env repo s w))"
  proof -
    obtain r cb' st' w1 where g: "guarded_scan env repo s w = (r, cb', st', w1)"
      by (cases "guarded_scan env repo s w") auto
    with raises obtain x where r: "r = Inl x" by (cases r) auto
    show ?thesis
      unfolding scan_one_raises [OF att g [unfolded r]]
      by (simp add: handle_scan_error_tracker)
  qed
  have b: "progress_tracker (fst (snd (snd (scan_one env repo acc s w)))) = progress_tracker s"
    if "\<not> is_attempted env repo s"
    using scan_one_not_attempted [OF that] .
  have c: "fst (scan_repos env (repo # rest) acc s w) = Some e \<and>
      progress_tracker (fst (snd (snd (scan_repos env (repo # rest) acc s w)))) =
        progress_tracker s"
    if "is_attempted env repo s" "fst (guarded_scan env repo s w) = Inl e" "\<not> is_Exception e"
    using scan_one_interrupted [OF that, of acc]
    by (cases "scan_one env repo acc s w") auto
  have d: "checkpoint_ids (fst (snd (snd (scan_repos env repos acc s w)))) \<subseteq>
     checkpoint_ids s \<union> set (completed_scans env repos acc s w)"
    by (rule scan_repos_ids)
  have f: "tracker_ids (fst (finalize (write_checkpoint env) tracker w)) \<subseteq> tracker_ids tracker"
    unfolding finalize_def by (rule save_ids)
  from a b c d f show ?thesis by blast
qed

lemmas example_run_defs =
  example_env_def example_scanner_def example_repo_def scan_one_def guarded_scan_def
  call_def admit_def attempt_def scan_repository_def deep_scan_block_def record_details_def
  handle_scan_error_def mark_scanned_def save_def should_skip_repo_def is_scanned_def
  is_Exception_def CircuitBreaker_def Let_def is_attempted_def get_temporal_metadata_def

theorem checkpoint_only_completed_witness:
  "is_attempted example_env (example_repo ''b'') example_scanner \<and>
   isl (fst (guarded_scan example_env (example_repo ''b'') example_scanner 0)) \<and>
   progress_tracker (fst (snd (snd (scan_one example_env (example_repo ''b'') ([], [])
     example_scanner 0)))) = progress_tracker example_scanner \<and>
   fst (guarded_scan example_env (example_repo ''c'') example_scanner 0) = Inl KeyboardInterrupt \<and>
   \<not> is_Exception (KeyboardInterrupt :: string py_exception) \<and>
   fst (scan_repos example_env [example_repo ''c'', example_repo ''a''] ([], [])
     example_scanner 0) = Some KeyboardInterrupt \<and>
   completed_scans example_env [example_repo ''a'', example_repo ''b'', example_repo ''c'']
     ([], []) example_scanner 0 = [''org/a''] \<and>
   checkpoint_ids (fst (snd (snd (scan_repos example_env
     [example_repo ''a'', example_repo ''b'', example_repo ''c''] ([], []) example_scanner 0)))) =
     {''org/a''}"
proof -
  have h1: "is_attempted example_env (example_repo ''b'') example_scanner \<and>
      isl (fst (guarded_scan example_env (example_repo ''b'') example_scanner 0))"
    by (simp add: example_run_defs)
  have h2: "is_attempted example_env (example_repo ''c'') example_scanner \<and>
      fst (guarded_scan example_env (example_repo ''c'') example_scanner 0) = Inl KeyboardInterrupt \<and>
      \<not> is_Exception (KeyboardInterrupt :: string py_exception)"
    by (simp add: example_run_defs)
  have comp: "completed_scans example_env [example_repo ''a'', example_repo ''b'', example_repo ''c'']
      ([], []) example_scanner 0 = [''org/a'']"
    by (simp add: example_run_defs)
  have marked: "''org/a'' \<in> checkpoint_ids (fst (snd (snd (scan_repos example_env
      [example_repo ''a'', example_repo ''b'', example_repo ''c''] ([], []) example_scanner 0))))"
    by (simp add: example_run_defs checkpoint_ids_def tracker_ids_def)
  have before: "checkpoint_ids example_scanner = {}"
    by (simp add: example_scanner_def checkpoint_ids_def tracker_ids_def)
  note t1 = checkpoint_only_completed [of example_env "example_repo ''b''" example_scanner 0
      "([], [])" KeyboardInterrupt "[]"
      "[example_repo ''a'', example_repo ''b'', example_repo ''c'']"
      "\<lparr> scanned_repos = [], enabled = True, checkpoint_file = None \<rparr>"]
  note t2 = checkpoint_only_completed [of example_env "example_repo ''c''" example_scanner 0
      "([], [])" KeyboardInterrupt "[example_repo ''a'']" "[]"
      "\<lparr> scanned_repos = [], enabled = True, checkpoint_file = None \<rparr>"]
  have w1: "progress_tracker (fst (snd (snd (scan_one example_env (example_repo ''b'') ([], [])
      example_scanner 0)))) = progress_tracker example_scanner"
    using t1 h1 by blast
  have w2: "fst (scan_repos example_env [example_repo ''c'', example_repo ''a''] ([], [])
      example_scanner 0) = Some KeyboardInterrupt"
    using t2 h2 by blast
  have w3: "checkpoint_ids (fst (snd (snd (scan_repos example_env
      [example_repo ''a'', example_repo ''b'', example_repo ''c''] ([], []) example_scanner 0)))) \<subseteq>
      {''org/a''}"
  proof -
    have "checkpoint_ids (fst (snd (snd (scan_repos example_env
        [example_repo ''a'', example_repo ''b'', example_repo ''c''] ([], []) example_scanner 0)))) \<subseteq>
        checkpoint_ids example_scanner \<union> set (completed_scans example_env
        [example_repo ''a'', example_repo ''b'', example_repo ''c''] ([], []) example_scanner 0)"
      using t1 by blast
    then show ?thesis unfolding comp before by simp
  qed
  from h1 h2 comp w1 w2 w3 marked show ?thesis by blast
qed

section \<open>Properties of the curation engine\<close>

lemma with_backoff_world:
  "snd (with_backoff target s) = snd (target s) \<or>
   snd (with_backoff target s) = snd (target (snd (target s)))"
  by (cases "target s") (auto simp: with_backoff_def split: sum.splits)

lemma oracle_request_world:
  "snd (snd (oracle_request ask (st, w))) = snd (ask w)"
  by (cases "ask w") (auto simp: oracle_request_def split: oracle_answer.splits)

lemma evaluate_strategic_value_world:
  "snd (snd (evaluate_strategic_value config orc tech (st, w))) = snd (ask_strategic orc tech w) \<or>
   snd (snd (evaluate_strategic_value config orc tech (st, w))) =
     snd (ask_strategic orc tech (snd (ask_strategic orc tech w)))"
proof -
  define target where "target = (\<lambda>s.
       (case oracle_request (ask_strategic orc tech) s of
          (Inl e, s1) \<Rightarrow> (Inl e, s1)
        | (Inr reply, s1) \<Rightarrow>
            (let value = (case sr_strategic_value reply of None \<Rightarrow> ''medium'' | Some v \<Rightarrow> v)
             in (Inr \<lparr> should_include = (value \<in> set (strategic_include config)),
                       strategic_value = sr_strategic_value reply,
                       reason = sr_reason reply,
                       confidence = sr_confidence reply \<rparr>, s1))))"
  have target: "snd (snd (target s)) = snd (ask_strategic orc tech (snd s))" for s
  proof -
    obtain st' w' where s: "s = (st', w')" by (cases s)
    show ?thesis
      using oracle_request_world [of "ask_strategic orc tech" st' w']
      unfolding target_def s
      by (cases "oracle_request (ask_strategic orc tech) (st', w')")
         (auto simp: Let_def split: sum.splits)
  qed
  have eq: "evaluate_strategic_value config orc tech = with_backoff target"
    unfolding evaluate_strategic_value_def target_def ..
  from with_backoff_world [of target "(st, w)"]
  show ?thesis
    unfolding eq by (auto simp: target)
qed

text \<open>
  Claim C8, as stated (auto-removal exactly when the name matches the utility list and
  exactly one repository uses the technology), fails under the default configuration:
  \<open>React\<close> with one repository matches no utility name and is auto-removed without an
  Oracle request, and \<open>curl\<close> with three repositories is auto-removed as well.
\<close>

theorem auto_ignore_counterexample:
  "name (example_tech ''React'' 1) \<notin> always_include_names default_filter_config \<and>
   repos_count (example_tech ''React'' 1) < always_include_min_repos default_filter_config \<and>
   \<not> spec_auto_removed example_runtime (example_tech ''React'' 1) \<and>
   evaluate_one example_runtime default_filter_config merging_oracle (example_tech ''React'' 1)
     ([], initial_filter_stats, 0) =
     ([(''React'', auto_ignore_decision)],
      initial_filter_stats\<lparr>evaluated := 1, removed := 1\<rparr>, 0) \<and>
   \<not> spec_auto_removed example_runtime (example_tech ''curl'' 3) \<and>
   evaluate_one example_runtime default_filter_config merging_oracle (example_tech ''curl'' 3)
     ([], initial_filter_stats, 0) =
     ([(''curl'', auto_ignore_decision)],
      initial_filter_stats\<lparr>evaluated := 1, removed := 1\<rparr>, 0)"
  by (simp add: example_tech_def default_filter_config_def spec_auto_removed_def
      spec_matches_utility_list_def os_utils_def dev_utils_def example_runtime_def ascii_lower_char_def
      evaluate_one_def should_auto_ignore_def set_decision_def auto_ignore_decision_def
      initial_filter_stats_def Let_def)

text \<open>
  Claim C8, amended. A technology that is neither allow-listed by name nor at or above the
  configured repository-count minimum is auto-removed, without a request to the Oracle,
  exactly when an enabled auto-ignore rule applies: it has exactly one using repository, or
  its lower-cased name contains a name of the OS-utility list, or it contains a name of the
  developer-convenience list. In every other such case the Oracle is asked for the
  strategic-value verdict (once, or twice after a client error) and the decision follows
  its answer, or keeps the technology when the request fails.
\<close>

theorem auto_ignore_rules:
  assumes "name tech \<notin> always_include_names config"
    and "repos_count tech < always_include_min_repos config"
  shows
  "(should_auto_ignore py config tech \<longleftrightarrow>
      (ignore_single_repo config \<and> repos_count tech = 1) \<or>
      (ignore_os_utilities config \<and> list_ex (\<lambda>util. str_in util (str_lower py (name tech))) os_utils) \<or>
      (ignore_dev_conveniences config \<and>
         list_ex (\<lambda>util. str_in util (str_lower py (name tech))) dev_utils)) \<and>
   (should_auto_ignore py config tech \<longrightarrow>
      evaluate_one py config orc tech (decisions, st, w) =
        (set_decision (name tech) auto_ignore_decision decisions,
         st\<lparr>evaluated := evaluated st + 1, removed := removed st + 1\<rparr>, w)) \<and>
   (\<not> should_auto_ignore py config tech \<longrightarrow>
      evaluate_one py config orc tech (decisions, st, w) =
        (case evaluate_strategic_value config orc tech (st\<lparr>evaluated := evaluated st + 1\<rparr>, w) of
           (Inr d, (st2, w2)) \<Rightarrow>
             (set_decision (name tech) d decisions,
              (if should_include d then st2\<lparr>kept := kept st2 + 1\<rparr>
               else st2\<lparr>removed := removed st2 + 1\<rparr>), w2)
         | (Inl e, (st2, w2)) \<Rightarrow>
             (set_decision (name tech)
                \<lparr> should_include = True, strategic_value = Some ''unknown'',
                  reason = Some ''AI evaluation failed, kept by default'',
                  confidence = Some ''low'' \<rparr> decisions,
              st2\<lparr>kept := kept st2 + 1\<rparr>, w2)) \<and>
      (snd (snd (evaluate_one py config orc tech (decisions, st, w))) =
         snd (ask_strategic orc tech w) \<or>
       snd (snd (evaluate_one py config orc tech (decisions, st, w))) =
         snd (ask_strategic orc tech (snd (ask_strategic orc tech w)))))"
proof -
  have rules: "should_auto_ignore py config tech \<longleftrightarrow>
      (ignore_single_repo config \<and> repos_count tech = 1) \<or>
      (ignore_os_utilities config \<and> list_ex (\<lambda>util. str_in util (str_lower py (name tech))) os_utils) \<or>
      (ignore_dev_conveniences config \<and>
         list_ex (\<lambda>util. str_in util (str_lower py (name tech))) dev_utils)"
    unfolding should_auto_ignore_def Let_def by auto
  have removed: "evaluate_one py config orc tech (decisions, st, w) =
        (set_decision (name tech) auto_ignore_decision decisions,
         st\<lparr>evaluated := evaluated st + 1, removed := removed st + 1\<rparr>, w)"
    if "should_auto_ignore py config tech"
    using that assms by (simp add: evaluate_one_def auto_ignore_decision_def Let_def)
  have asked: "evaluate_one py config orc tech (decisions, st, w) =
        (case evaluate_strategic_value config orc tech (st\<lparr>evaluated := evaluated st + 1\<rparr>, w) of
           (Inr d, (st2, w2)) \<Rightarrow>
             (set_decision (name tech) d decisions,
              (if should_include d then st2\<lparr>kept := kept st2 + 1\<rparr>
               else st2\<lparr>removed := removed st2 + 1\<rparr>), w2)
         | (Inl e, (st2, w2)) \<Rightarrow>
             (set_decision (name tech)
                \<lparr> should_include = True, strategic_value = Some ''unknown'',
                  reason = Some ''AI evaluation failed, kept by default'',
                  confidence = Some ''low'' \<rparr> decisions,
              st2\<lparr>kept := kept st2 + 1\<rparr>, w2))"
    if "\<not> should_auto_ignore py config tech"
    using that assms by (simp add: evaluate_one_def Let_def)
  have world: "snd (snd (evaluate_one py config orc tech (decisions, st, w))) =
      snd (snd (evaluate_strategic_value config orc tech (st\<lparr>evaluated := evaluated st + 1\<rparr>, w)))"
    if "\<not> should_auto_ignore py config tech"
    unfolding asked [OF that]
    by (cases "evaluate_strategic_value config orc tech (st\<lparr>evaluated := evaluated st + 1\<rparr>, w)")
       (auto split: sum.splits)
  have consulted: "snd (snd (evaluate_one py config orc tech (decisions, st, w))) =
         snd (ask_strategic orc tech w) \<or>
       snd (snd (evaluate_one py config orc tech (decisions, st, w))) =
         snd (ask_strategic orc tech (snd (ask_strategic orc tech w)))"
    if "\<not> should_auto_ignore py config tech"
    unfolding world [OF that]
    by (rule evaluate_strategic_value_world)
  from rules removed asked consulted show ?thesis by blast
qed

theorem auto_ignore_rules_witness:
  "name (example_tech ''GraphQL'' 3) \<notin> always_include_names default_filter_config \<and>
   repos_count (example_tech ''GraphQL'' 3) < always_include_min_repos default_filter_config \<and>
   \<not> should_auto_ignore example_runtime default_filter_config (example_tech ''GraphQL'' 3) \<and>
   snd (snd (evaluate_one example_runtime default_filter_config merging_oracle (example_tech ''GraphQL'' 3)
     ([], initial_filter_stats, 0))) = 1 \<and>
   should_auto_ignore example_runtime default_filter_config (example_tech ''nodemon'' 2) \<and>
   evaluate_one example_runtime default_filter_config merging_oracle (example_tech ''nodemon'' 2)
     ([], initial_filter_stats, 0) =
     ([(''nodemon'', auto_ignore_decision)],
      initial_filter_stats\<lparr>evaluated := 1, removed := 1\<rparr>, 0)"
proof -
  have h1: "name (example_tech ''GraphQL'' 3) \<notin> always_include_names default_filter_config"
    and h2: "repos_count (example_tech ''GraphQL'' 3) < always_include_min_repos default_filter_config"
    and h3: "name (example_tech ''nodemon'' 2) \<notin> always_include_names default_filter_config"
    and h4: "repos_count (example_tech ''nodemon'' 2) < always_include_min_repos default_filter_config"
    by (simp_all add: example_tech_def default_filter_config_def)
  have n1: "\<not> should_auto_ignore example_runtime default_filter_config (example_tech ''GraphQL'' 3)"
    using auto_ignore_rules [OF h1 h2, of example_runtime merging_oracle "[]" initial_filter_stats 0]
    by (simp add: example_tech_def default_filter_config_def os_utils_def dev_utils_def
        example_runtime_def ascii_lower_char_def)
  have n2: "should_auto_ignore example_runtime default_filter_config (example_tech ''nodemon'' 2)"
    using auto_ignore_rules [OF h3 h4, of example_runtime merging_oracle "[]" initial_filter_stats 0]
    by (simp add: example_tech_def default_filter_config_def os_utils_def dev_utils_def
        example_runtime_def ascii_lower_char_def)
  have asked: "snd (snd (evaluate_one example_runtime default_filter_config merging_oracle
        (example_tech ''GraphQL'' 3) ([], initial_filter_stats, 0))) =
        snd (ask_strategic merging_oracle (example_tech ''GraphQL'' 3) 0) \<or>
      snd (snd (evaluate_one example_runtime default_filter_config merging_oracle
        (example_tech ''GraphQL'' 3) ([], initial_filter_stats, 0))) =
        snd (ask_strategic merging_oracle (example_tech ''GraphQL'' 3)
          (snd (ask_strategic merging_oracle (example_tech ''GraphQL'' 3) 0)))"
    using auto_ignore_rules [OF h1 h2, of example_runtime merging_oracle "[]" initial_filter_stats 0] n1
    by blast
  have w1: "snd (snd (evaluate_one example_runtime default_filter_config merging_oracle (example_tech ''GraphQL'' 3)
      ([], initial_filter_stats, 0))) = 1"
    using asked
    by (simp add: example_tech_def default_filter_config_def os_utils_def dev_utils_def
        example_runtime_def ascii_lower_char_def evaluate_one_def should_auto_ignore_def set_decision_def
        initial_filter_stats_def Let_def evaluate_strategic_value_def with_backoff_def
        oracle_request_def merging_oracle_def deterministic_oracle_def high_value_def)
  have w2: "evaluate_one example_runtime default_filter_config merging_oracle (example_tech ''nodemon'' 2)
      ([], initial_filter_stats, 0) =
      ([(''nodemon'', auto_ignore_decision)],
       initial_filter_stats\<lparr>evaluated := 1, removed := 1\<rparr>, 0)"
    using auto_ignore_rules [OF h3 h4, of example_runtime merging_oracle "[]" initial_filter_stats 0] n2
    by (simp add: set_decision_def example_tech_def initial_filter_stats_def)
  from h1 h2 n1 n2 w1 w2 show ?thesis by simp
qed

subsection \<open>Grouping\<close>




subsection \<open>The merge steps\<close>






























subsection \<open>The duplicate phase with a deterministic Oracle\<close>








subsection \<open>Running the engine twice\<close>





end
